theory Spec2Isabelle
  imports Complex_Main
begin

section \<open>Data model\<close>

text \<open>
  The instruction codes of \<^verbatim>\<open>GCodeCommand['type']\<close> (gcodeParser.ts). \<^verbatim>\<open>MoveType\<close> of
  gcodePathGenerator.ts is the sub-union \<^verbatim>\<open>'G0' | 'G1' | 'G2' | 'G3'\<close> of the same strings; the
  cast \<^verbatim>\<open>command.type as MoveType\<close> does nothing at run time, so one datatype holds both.
\<close>

datatype CommandType =
  G0 | G1 | G2 | G3 | G28 | G90 | G91 | G40 | G17 | G71 | G43
  | M104 | M140 | M106 | M107 | M03 | M06 | T | OTHER

type_synonym MoveType = CommandType

text \<open>
  \<^verbatim>\<open>GCodeCommand\<close>. The record is polymorphic in the type of numbers: the parser stores JavaScript
  numbers, NaN included, and the path generator is modelled on real numbers (see below).
  \<^verbatim>\<open>params\<close> is the dictionary from parameter letter to value.
\<close>

record 'n GCodeCommand =
  ctype :: CommandType
  lineNumber :: nat
  nNumber :: "'n option"
  params :: "char \<Rightarrow> 'n option"
  raw :: string

text \<open>\<^verbatim>\<open>THREE.Vector3\<close>; the fields x, y, z are named vx, vy, vz here.\<close>

record Vector3 =
  vx :: real
  vy :: real
  vz :: real

definition distanceTo :: "Vector3 \<Rightarrow> Vector3 \<Rightarrow> real" where
  "distanceTo a b = sqrt ((vx a - vx b)\<^sup>2 + (vy a - vy b)\<^sup>2 + (vz a - vz b)\<^sup>2)"

text \<open>The arc parameters object \<^verbatim>\<open>{ I, J, K }\<close> of a path point.\<close>

record ArcParams =
  arcI :: "real option"
  arcJ :: "real option"
  arcK :: "real option"

record PathPoint =
  position :: Vector3
  ptype :: MoveType
  feedrate :: "real option"
  extrusion :: "real option"
  plineNumber :: nat
  pparams :: "ArcParams option"

record PathSegment =
  points :: "PathPoint list"
  stype :: MoveType
  isExtruding :: bool

section \<open>The path generator (gcodePathGenerator.ts)\<close>

text \<open>
  The fields of class \<^verbatim>\<open>GCodePathGenerator\<close>. Numbers are real numbers here: rounding, NaN and
  the infinities of IEEE doubles are not modelled. A segment pushed onto \<^verbatim>\<open>segments\<close> is never
  written again (the field \<^verbatim>\<open>currentSegment\<close> is replaced at once), and every position stored
  is a fresh copy, so values stand for the objects.
\<close>

record GenState =
  currentPosition :: Vector3
  currentExtrusion :: real
  isAbsolutePositioning :: bool
  isAbsoluteExtrusion :: bool
  segments :: "PathSegment list"
  currentSegment :: "PathSegment option"
  currentFeedrate :: real

definition reset :: GenState where
  "reset = \<lparr> currentPosition = \<lparr> vx = 0, vy = 0, vz = 0 \<rparr>, currentExtrusion = 0,
     isAbsolutePositioning = True, isAbsoluteExtrusion = True, segments = [],
     currentSegment = None, currentFeedrate = 0 \<rparr>"

definition calculateNewPosition :: "GenState \<Rightarrow> real GCodeCommand \<Rightarrow> Vector3" where
  "calculateNewPosition s c =
     (let p = currentPosition s in
      if isAbsolutePositioning s then
        \<lparr> vx = (case params c CHR ''X'' of Some v \<Rightarrow> v | None \<Rightarrow> vx p),
          vy = (case params c CHR ''Y'' of Some v \<Rightarrow> v | None \<Rightarrow> vy p),
          vz = (case params c CHR ''Z'' of Some v \<Rightarrow> v | None \<Rightarrow> vz p) \<rparr>
      else
        \<lparr> vx = (case params c CHR ''X'' of Some v \<Rightarrow> vx p + v | None \<Rightarrow> vx p),
          vy = (case params c CHR ''Y'' of Some v \<Rightarrow> vy p + v | None \<Rightarrow> vy p),
          vz = (case params c CHR ''Z'' of Some v \<Rightarrow> vz p + v | None \<Rightarrow> vz p) \<rparr>)"

definition calculateNewExtrusion :: "GenState \<Rightarrow> real GCodeCommand \<Rightarrow> real" where
  "calculateNewExtrusion s c =
     (case params c CHR ''E'' of
        None \<Rightarrow> currentExtrusion s
      | Some e \<Rightarrow> if isAbsoluteExtrusion s then e else currentExtrusion s + e)"

text \<open>
  The segment-boundary test shared by \<^verbatim>\<open>processLinearMove\<close> and \<^verbatim>\<open>processArcMove\<close>: when there is
  no open segment, or its type or flag differs, the open segment is pushed (if it holds a
  point) and a fresh empty one takes its place.
\<close>

definition openSegment :: "MoveType \<Rightarrow> bool \<Rightarrow> GenState \<Rightarrow> GenState" where
  "openSegment ty ex s =
     (case currentSegment s of
        None \<Rightarrow> s\<lparr> currentSegment := Some \<lparr> points = [], stype = ty, isExtruding = ex \<rparr> \<rparr>
      | Some cs \<Rightarrow>
          if stype cs \<noteq> ty \<or> isExtruding cs \<noteq> ex then
            s\<lparr> segments := (if points cs \<noteq> [] then segments s @ [cs] else segments s),
               currentSegment := Some \<lparr> points = [], stype = ty, isExtruding = ex \<rparr> \<rparr>
          else s)"

definition pushPoint :: "PathPoint \<Rightarrow> GenState \<Rightarrow> GenState" where
  "pushPoint p s =
     (case currentSegment s of
        None \<Rightarrow> s
      | Some cs \<Rightarrow> s\<lparr> currentSegment := Some (cs\<lparr> points := points cs @ [p] \<rparr>) \<rparr>)"

definition processLinearMove :: "real GCodeCommand \<Rightarrow> GenState \<Rightarrow> GenState" where
  "processLinearMove c s =
     (let newPosition = calculateNewPosition s c;
          newExtrusion = calculateNewExtrusion s c;
          ex = (newExtrusion > currentExtrusion s);
          point = \<lparr> position = newPosition, ptype = ctype c, feedrate = Some (currentFeedrate s),
                    extrusion = Some newExtrusion, plineNumber = lineNumber c, pparams = None \<rparr>;
          s1 = pushPoint point (openSegment (ctype c) ex s)
      in s1\<lparr> currentPosition := newPosition, currentExtrusion := newExtrusion \<rparr>)"

text \<open>\<^verbatim>\<open>command.params.I || 0\<close>: an absent offset counts as 0.\<close>

definition orZero :: "real option \<Rightarrow> real" where
  "orZero v = (case v of None \<Rightarrow> 0 | Some r \<Rightarrow> r)"

definition arcEndPosition :: "GenState \<Rightarrow> real GCodeCommand \<Rightarrow> Vector3" where
  "arcEndPosition s c =
     (let st = currentPosition s in
      \<lparr> vx = (case params c CHR ''X'' of
                Some v \<Rightarrow> (if isAbsolutePositioning s then v else vx st + v) | None \<Rightarrow> vx st),
        vy = (case params c CHR ''Y'' of
                Some v \<Rightarrow> (if isAbsolutePositioning s then v else vy st + v) | None \<Rightarrow> vy st),
        vz = (case params c CHR ''Z'' of
                Some v \<Rightarrow> (if isAbsolutePositioning s then v else vz st + v) | None \<Rightarrow> vz st) \<rparr>)"

definition arcCenter :: "GenState \<Rightarrow> real GCodeCommand \<Rightarrow> Vector3" where
  "arcCenter s c =
     (let st = currentPosition s in
      \<lparr> vx = vx st + orZero (params c CHR ''I''),
        vy = vy st + orZero (params c CHR ''J''),
        vz = vz st + orZero (params c CHR ''K'') \<rparr>)"

text \<open>
  The two pushes of \<^verbatim>\<open>processArcMove\<close>: into an empty segment the start point, otherwise the
  parameters of the segment's last point are overwritten; then the end point.
\<close>

definition setLastParams :: "ArcParams \<Rightarrow> PathPoint list \<Rightarrow> PathPoint list" where
  "setLastParams ap ps =
     (if ps = [] then ps else butlast ps @ [(last ps)\<lparr> pparams := Some ap \<rparr>])"

definition pushArcPoints :: "PathPoint \<Rightarrow> PathPoint \<Rightarrow> ArcParams \<Rightarrow> GenState \<Rightarrow> GenState" where
  "pushArcPoints startPoint endPoint ap s =
     (case currentSegment s of
        None \<Rightarrow> s
      | Some cs \<Rightarrow>
          s\<lparr> currentSegment := Some (cs\<lparr> points :=
               (if points cs = [] then [startPoint] else setLastParams ap (points cs))
               @ [endPoint] \<rparr>) \<rparr>)"

definition processArcMove :: "real GCodeCommand \<Rightarrow> GenState \<Rightarrow> GenState" where
  "processArcMove c s =
     (let startPosition = currentPosition s;
          endPosition = arcEndPosition s c
      in if vx endPosition = vx startPosition \<and> vy endPosition = vy startPosition then s
      else
        let center = arcCenter s c;
            radius = distanceTo center startPosition
        in if radius < 0.001 then s
        else
          let newExtrusion = calculateNewExtrusion s c;
              ex = (newExtrusion > currentExtrusion s);
              arcParams = \<lparr> arcI = params c CHR ''I'', arcJ = params c CHR ''J'',
                            arcK = params c CHR ''K'' \<rparr>;
              startPoint = \<lparr> position = startPosition, ptype = ctype c,
                             feedrate = Some (currentFeedrate s),
                             extrusion = Some (currentExtrusion s),
                             plineNumber = lineNumber c, pparams = Some arcParams \<rparr>;
              endPoint = \<lparr> position = endPosition, ptype = ctype c,
                           feedrate = Some (currentFeedrate s),
                           extrusion = Some newExtrusion,
                           plineNumber = lineNumber c, pparams = Some arcParams \<rparr>;
              s1 = pushArcPoints startPoint endPoint arcParams (openSegment (ctype c) ex s)
          in s1\<lparr> currentPosition := endPosition, currentExtrusion := newExtrusion \<rparr>)"

text \<open>
  \<^verbatim>\<open>processHomeMove\<close>: \<^verbatim>\<open>homePosition\<close> starts as \<^verbatim>\<open>new THREE.Vector3(0, 0, 0)\<close> and each named
  axis is then set to 0.
\<close>

definition processHomeMove :: "real GCodeCommand \<Rightarrow> GenState \<Rightarrow> GenState" where
  "processHomeMove c s =
     (let h0 = \<lparr> vx = 0, vy = 0, vz = 0 \<rparr>;
          h1 = (if params c CHR ''X'' \<noteq> None then h0\<lparr> vx := 0 \<rparr> else h0);
          h2 = (if params c CHR ''Y'' \<noteq> None then h1\<lparr> vy := 0 \<rparr> else h1);
          homePosition = (if params c CHR ''Z'' \<noteq> None then h2\<lparr> vz := 0 \<rparr> else h2);
          point = \<lparr> position = homePosition, ptype = G0, feedrate = Some (currentFeedrate s),
                    extrusion = None, plineNumber = lineNumber c, pparams = None \<rparr>
      in s\<lparr> segments := (case currentSegment s of
                            None \<Rightarrow> segments s
                          | Some cs \<Rightarrow> if points cs \<noteq> [] then segments s @ [cs] else segments s),
            currentSegment := Some \<lparr> points = [point], stype = G0, isExtruding = False \<rparr>,
            currentPosition := homePosition \<rparr>)"

definition processCommand :: "real GCodeCommand \<Rightarrow> GenState \<Rightarrow> GenState" where
  "processCommand c s =
     (let s1 = (if ctype c = G0 \<or> ctype c = G1 then processLinearMove c s
                else if ctype c = G2 \<or> ctype c = G3 then processArcMove c s
                else if ctype c = G90 then s\<lparr> isAbsolutePositioning := True \<rparr>
                else if ctype c = G91 then s\<lparr> isAbsolutePositioning := False \<rparr>
                else if ctype c = G28 then processHomeMove c s
                else s)
      in case params c CHR ''F'' of
           None \<Rightarrow> s1
         | Some f \<Rightarrow> s1\<lparr> currentFeedrate := f \<rparr>)"

definition finish :: "GenState \<Rightarrow> PathSegment list" where
  "finish s =
     (case currentSegment s of
        None \<Rightarrow> segments s
      | Some cs \<Rightarrow> if points cs \<noteq> [] then segments s @ [cs] else segments s)"

definition generatePath :: "real GCodeCommand list \<Rightarrow> PathSegment list" where
  "generatePath commands = finish (foldl (\<lambda>s c. processCommand c s) reset commands)"

section \<open>The trajectory synthesizer (calculateAnimationFrames, GCodeViewer.vue)\<close>


text \<open>
  What the synthesizer takes from outside this repository: \<^verbatim>\<open>Math.atan2\<close>, and the curve class
  \<^verbatim>\<open>THREE.EllipseCurve\<close> with its methods \<^verbatim>\<open>getPoint(t)\<close> and \<^verbatim>\<open>getPoints(divisions)\<close>. They are
  parameters of the model, so every theorem holds whatever they compute.
\<close>

record Vector2 =
  v2x :: real
  v2y :: real

record EllipseCurve =
  aX :: real
  aY :: real
  xRadius :: real
  yRadius :: real
  aStartAngle :: real
  aEndAngle :: real
  aClockwise :: bool
  aRotation :: real

record External =
  atan2 :: "real \<Rightarrow> real \<Rightarrow> real"
  getPoint :: "EllipseCurve \<Rightarrow> real \<Rightarrow> Vector2"
  getPoints :: "EllipseCurve \<Rightarrow> int \<Rightarrow> Vector2 list"

definition distanceTo2 :: "Vector2 \<Rightarrow> Vector2 \<Rightarrow> real" where
  "distanceTo2 a b = sqrt ((v2x a - v2x b)\<^sup>2 + (v2y a - v2y b)\<^sup>2)"

text \<open>
  \<^verbatim>\<open>for (let i = 1; i < points.length; i++) segmentLength += points[i].distanceTo(points[i - 1])\<close>
\<close>

fun chordLength :: "Vector2 list \<Rightarrow> real" where
  "chordLength (a # b # rest) = distanceTo2 b a + chordLength (b # rest)"
| "chordLength _ = 0"




text \<open>
  The arc branch. \<open>ap\<close> is the \<^verbatim>\<open>params\<close> object the offsets are read from
  (\<^verbatim>\<open>p2.params\<close> in the single-point case, \<^verbatim>\<open>p1.params\<close> in the multi-point case);
  \<^verbatim>\<open>params?.I ?? 0\<close> is \<open>orZero\<close>.
\<close>

definition arcOffset :: "ArcParams option \<Rightarrow> (ArcParams \<Rightarrow> real option) \<Rightarrow> real" where
  "arcOffset ap sel = (case ap of None \<Rightarrow> 0 | Some a \<Rightarrow> orZero (sel a))"

definition arcCurve :: "External \<Rightarrow> bool \<Rightarrow> ArcParams option \<Rightarrow> Vector3 \<Rightarrow> Vector3 \<Rightarrow> EllipseCurve \<times> real" where
  "arcCurve ext isClockwise ap p1 p2 =
     (let i = arcOffset ap arcI;
          j = arcOffset ap arcJ;
          center = \<lparr> vx = vx p1 + i, vy = vy p1 + j, vz = vz p1 \<rparr>;
          radius = distanceTo p1 center;
          startAngle = atan2 ext (vy p1 - vy center) (vx p1 - vx center);
          endAngle = atan2 ext (vy p2 - vy center) (vx p2 - vx center);
          d = endAngle - startAngle;
          angleDiff = (if isClockwise then (if d \<ge> 0 then d - pi * 2 else d)
                       else (if d \<le> 0 then d + pi * 2 else d))
      in (\<lparr> aX = vx center, aY = vy center, xRadius = radius, yRadius = radius,
             aStartAngle = startAngle, aEndAngle = startAngle + angleDiff,
             aClockwise = isClockwise, aRotation = 0 \<rparr>,
          \<bar>angleDiff\<bar> * radius))"

definition arcLength :: "External \<Rightarrow> bool \<Rightarrow> ArcParams option \<Rightarrow> Vector3 \<Rightarrow> Vector3 \<Rightarrow> real" where
  "arcLength ext isClockwise ap p1 p2 =
     (let (curve, sweep) = arcCurve ext isClockwise ap p1 p2;
          numPoints = max 50 \<lceil>sweep * 2\<rceil>
      in chordLength (getPoints ext curve numPoints))"











section \<open>The parser and the validator (gcodeParser.ts)\<close>

text \<open>
  A JavaScript number: a real number, NaN or an infinity. Rounding within the range of IEEE
  doubles is not modelled: \<open>Num v\<close> stands for the double nearest to \<open>v\<close>. Overflow is: a value
  at or beyond \<open>2^1024 - 2^970\<close>, halfway between the largest double and \<open>2^1024\<close>, rounds to
  an infinity, and that is what \<open>toDouble\<close> returns for it.
\<close>

datatype number = NaN | NegInfinity | Num real | Infinity

definition toDouble :: "real \<Rightarrow> number" where
  "toDouble v =
     (if 2 ^ 1024 - 2 ^ 970 \<le> v then Infinity
      else if v \<le> - (2 ^ 1024 - 2 ^ 970) then NegInfinity
      else Num v)"

definition isNaN :: "number \<Rightarrow> bool" where
  "isNaN v = (v = NaN)"

text \<open>
  Text is ASCII: a \<open>char\<close> stands for a UTF-16 code unit below 128. The white space of
  \<^verbatim>\<open>trim()\<close> and of \<^verbatim>\<open>\s\<close> is then tab, line feed, vertical tab, form feed, carriage return
  and space, and \<^verbatim>\<open>toUpperCase()\<close> maps a to z onto A to Z.
\<close>

definition isSpace :: "char \<Rightarrow> bool" where
  "isSpace c = (of_char c \<in> {9, 10, 11, 12, 13, 32 :: nat})"

definition isDigit :: "char \<Rightarrow> bool" where
  "isDigit c = (48 \<le> (of_char c :: nat) \<and> (of_char c :: nat) \<le> 57)"

definition digitValue :: "char \<Rightarrow> nat" where
  "digitValue c = of_char c - 48"

definition upperChar :: "char \<Rightarrow> char" where
  "upperChar c =
     (case map_of (zip ''abcdefghijklmnopqrstuvwxyz'' ''ABCDEFGHIJKLMNOPQRSTUVWXYZ'') c of
        Some u \<Rightarrow> u
      | None \<Rightarrow> c)"

definition toUpperCase :: "string \<Rightarrow> string" where
  "toUpperCase s = map upperChar s"

definition trim :: "string \<Rightarrow> string" where
  "trim s = rev (dropWhile isSpace (rev (dropWhile isSpace s)))"

text \<open>\<^verbatim>\<open>s.split(sep)\<close> for a one-character separator, and \<^verbatim>\<open>s.split(/\s+/)\<close>.\<close>

fun split :: "char \<Rightarrow> string \<Rightarrow> string list" where
  "split sep [] = [[]]"
| "split sep (c # cs) =
     (if c = sep then [] # split sep cs
      else (case split sep cs of t # ts \<Rightarrow> (c # t) # ts | [] \<Rightarrow> [[c]]))"

fun splitSpaces :: "string \<Rightarrow> string list" where
  "splitSpaces [] = [[]]"
| "splitSpaces (c # cs) =
     (if isSpace c then
        (case cs of
           d # _ \<Rightarrow> if isSpace d then splitSpaces cs else [] # splitSpaces cs
         | [] \<Rightarrow> [[], []])
      else (case splitSpaces cs of t # ts \<Rightarrow> (c # t) # ts | [] \<Rightarrow> [[c]]))"

text \<open>The equations of \<open>splitSpaces\<close> are applied by name: as simplification rules they keep
  unfolding under a case split on the rest of the text.\<close>

declare splitSpaces.simps [simp del]

subsection \<open>parseInt and parseFloat\<close>

text \<open>
  \<^verbatim>\<open>parseInt(str)\<close> without a radix: leading white space and a sign are skipped, the prefix
  \<^verbatim>\<open>0x\<close> or \<^verbatim>\<open>0X\<close> selects base 16, and the longest run of digits is the value; no digit
  gives NaN. \<^verbatim>\<open>parseFloat(str)\<close> reads the longest prefix that is a decimal literal: a sign,
  then \<^verbatim>\<open>Infinity\<close>, or digits with an optional fraction and an optional exponent. Both
  return the value as a double, so an infinity for a literal that is too large.
\<close>

definition decimalValue :: "string \<Rightarrow> nat" where
  "decimalValue ds = foldl (\<lambda>a d. a * 10 + digitValue d) 0 ds"

definition isHexDigit :: "char \<Rightarrow> bool" where
  "isHexDigit c = (isDigit c \<or> (65 \<le> (of_char c :: nat) \<and> (of_char c :: nat) \<le> 70)
                   \<or> (97 \<le> (of_char c :: nat) \<and> (of_char c :: nat) \<le> 102))"

definition hexDigitValue :: "char \<Rightarrow> nat" where
  "hexDigitValue c = (if isDigit c then of_char c - 48
                      else if (of_char c :: nat) \<le> 70 then of_char c - 55 else of_char c - 87)"

definition hexValue :: "string \<Rightarrow> nat" where
  "hexValue ds = foldl (\<lambda>a d. a * 16 + hexDigitValue d) 0 ds"

definition takeSign :: "string \<Rightarrow> real \<times> string" where
  "takeSign s =
     (case s of
        c # t \<Rightarrow> if c = CHR ''-'' then (-1, t) else if c = CHR ''+'' then (1, t) else (1, s)
      | [] \<Rightarrow> (1, s))"

definition parseInt :: "string \<Rightarrow> number" where
  "parseInt str =
     (let (sign, s) = takeSign (dropWhile isSpace str);
          hex = (case s of a # b # _ \<Rightarrow> a = CHR ''0'' \<and> (b = CHR ''x'' \<or> b = CHR ''X'') | _ \<Rightarrow> False)
      in if hex then
           (let z = takeWhile isHexDigit (drop 2 s)
            in if z = [] then NaN else toDouble (sign * real (hexValue z)))
         else
           (let z = takeWhile isDigit s
            in if z = [] then NaN else toDouble (sign * real (decimalValue z))))"

definition parseFloat :: "string \<Rightarrow> number" where
  "parseFloat str =
     (let (sign, s) = takeSign (dropWhile isSpace str)
      in if take 8 s = ''Infinity'' then (if sign < 0 then NegInfinity else Infinity)
      else
        let ip = takeWhile isDigit s;
            r1 = dropWhile isDigit s;
            (fp, r2) = (case r1 of
                          c # t \<Rightarrow> if c = CHR ''.'' then (takeWhile isDigit t, dropWhile isDigit t)
                                   else ([], r1)
                        | [] \<Rightarrow> ([], r1))
        in if ip = [] \<and> fp = [] then NaN
        else
          let mant = real (decimalValue ip) + real (decimalValue fp) / 10 ^ length fp;
              (esign, ed) = (case r2 of
                               c # t \<Rightarrow> if c = CHR ''e'' \<or> c = CHR ''E''
                                        then (let (es, t2) = takeSign t in (es, takeWhile isDigit t2))
                                        else (1, [])
                             | [] \<Rightarrow> (1, []))
          in toDouble (sign * (if esign < 0 then mant / 10 ^ decimalValue ed
                               else mant * 10 ^ decimalValue ed)))"

subsection \<open>parseCommand\<close>

text \<open>The variables \<^verbatim>\<open>params\<close>, \<^verbatim>\<open>nNumber\<close> and \<^verbatim>\<open>commandType\<close> of the loop over the parts.\<close>

record ParseState =
  psParams :: "char \<Rightarrow> number option"
  psNNumber :: "number option"
  psCommandType :: CommandType

text \<open>
  The two \<^verbatim>\<open>if ... else if\<close> chains over \<^verbatim>\<open>code\<close>: a code that is not listed leaves
  \<^verbatim>\<open>commandType\<close> as it is.
\<close>

definition gCode :: "number \<Rightarrow> CommandType \<Rightarrow> CommandType" where
  "gCode code ty =
     (if code = Num 0 then G0 else if code = Num 1 then G1 else if code = Num 2 then G2
      else if code = Num 3 then G3 else if code = Num 28 then G28 else if code = Num 90 then G90
      else if code = Num 91 then G91 else if code = Num 40 then G40 else if code = Num 17 then G17
      else if code = Num 71 then G71 else if code = Num 43 then G43 else ty)"

definition mCode :: "number \<Rightarrow> CommandType \<Rightarrow> CommandType" where
  "mCode code ty =
     (if code = Num 3 then M03 else if code = Num 6 then M06 else if code = Num 104 then M104
      else if code = Num 140 then M140 else if code = Num 106 then M106
      else if code = Num 107 then M107 else ty)"

text \<open>\<^verbatim>\<open>!params['G']\<close>: true when the entry is absent, NaN or 0.\<close>

definition falsy :: "number option \<Rightarrow> bool" where
  "falsy v = (v = None \<or> v = Some NaN \<or> v = Some (Num 0))"

text \<open>One round of the loop \<^verbatim>\<open>for (let i = 0; i < parts.length; i++)\<close>.\<close>

definition parsePart :: "ParseState \<Rightarrow> string \<Rightarrow> ParseState" where
  "parsePart ps p =
     (let part = toUpperCase p in
      case part of
        [] \<Rightarrow> ps
      | param # valueStr \<Rightarrow>
          if param = CHR ''N'' then ps\<lparr> psNNumber := Some (parseInt valueStr) \<rparr>
          else
            let v = (if CHR ''.'' \<in> set valueStr then parseFloat valueStr else parseInt valueStr)
            in if isNaN v then ps
            else if param = CHR ''G'' \<or> param = CHR ''M'' \<or> param = CHR ''T'' then
              (let code = parseInt valueStr;
                   ty = (if param = CHR ''G'' then gCode code (psCommandType ps)
                         else if param = CHR ''M'' then mCode code (psCommandType ps)
                         else T)
               in ps\<lparr> psCommandType := ty, psParams := (psParams ps)(param \<mapsto> code) \<rparr>)
            else if param \<in> set ''XYZEFHSIJKR'' then
              (let ps1 = ps\<lparr> psParams := (psParams ps)(param \<mapsto> v) \<rparr>
               in if param \<in> set ''XYZE'' \<and> falsy (psParams ps1 CHR ''G'')
                  then ps1\<lparr> psCommandType := G1, psParams := (psParams ps1)(CHR ''G'' \<mapsto> Num 1) \<rparr>
                  else ps1)
            else ps)"

definition parseCommand :: "string \<Rightarrow> nat \<Rightarrow> number GCodeCommand option" where
  "parseCommand line n =
     (let cleanLine = trim (hd (split CHR '';'' line))
      in if cleanLine = [] then None
      else
        let ps = foldl parsePart
                   \<lparr> psParams = Map.empty, psNNumber = None, psCommandType = OTHER \<rparr>
                   (splitSpaces cleanLine)
        in Some \<lparr> ctype = psCommandType ps, lineNumber = n, nNumber = psNNumber ps,
                  params = psParams ps, raw = line \<rparr>)"

subsection \<open>parseGCode\<close>

text \<open>\<^verbatim>\<open>Math.max\<close> and \<^verbatim>\<open>Math.min\<close> of two numbers.\<close>

fun mathMax :: "number \<Rightarrow> number \<Rightarrow> number" where
  "mathMax NaN _ = NaN"
| "mathMax _ NaN = NaN"
| "mathMax Infinity _ = Infinity"
| "mathMax _ Infinity = Infinity"
| "mathMax NegInfinity b = b"
| "mathMax a NegInfinity = a"
| "mathMax (Num a) (Num b) = Num (max a b)"

fun mathMin :: "number \<Rightarrow> number \<Rightarrow> number" where
  "mathMin NaN _ = NaN"
| "mathMin _ NaN = NaN"
| "mathMin NegInfinity _ = NegInfinity"
| "mathMin _ NegInfinity = NegInfinity"
| "mathMin Infinity b = b"
| "mathMin a Infinity = a"
| "mathMin (Num a) (Num b) = Num (min a b)"

record Stats =
  totalLines :: nat
  validCommands :: nat
  maxX :: number
  maxY :: number
  maxZ :: number
  minX :: number
  minY :: number
  minZ :: number

record ParseResult =
  commands :: "number GCodeCommand list"
  stats :: Stats

text \<open>
  The variables \<^verbatim>\<open>commands\<close>, \<^verbatim>\<open>validCommands\<close>, \<^verbatim>\<open>maxX\<close> ... \<^verbatim>\<open>minZ\<close> of \<^verbatim>\<open>parseGCode\<close> are
  kept in a pair of the command list and a \<open>Stats\<close> record; \<open>parseLine\<close> is the callback of
  \<^verbatim>\<open>lines.forEach((line, index) => ...)\<close>.
\<close>

definition updateRange ::
  "number option \<Rightarrow> (Stats \<Rightarrow> number) \<Rightarrow> (Stats \<Rightarrow> number) \<Rightarrow>
   ((number \<Rightarrow> number) \<Rightarrow> Stats \<Rightarrow> Stats) \<Rightarrow> ((number \<Rightarrow> number) \<Rightarrow> Stats \<Rightarrow> Stats) \<Rightarrow>
   Stats \<Rightarrow> Stats" where
  "updateRange v getMax getMin setMax setMin st =
     (case v of
        None \<Rightarrow> st
      | Some a \<Rightarrow> setMin (\<lambda>_. mathMin (getMin st) a) (setMax (\<lambda>_. mathMax (getMax st) a) st))"

definition parseLine ::
  "number GCodeCommand list \<times> Stats \<Rightarrow> nat \<times> string \<Rightarrow> number GCodeCommand list \<times> Stats" where
  "parseLine acc il =
     (case parseCommand (snd il) (fst il + 1) of
        None \<Rightarrow> acc
      | Some command \<Rightarrow>
          (fst acc @ [command],
           updateRange (params command CHR ''Z'') maxZ minZ maxZ_update minZ_update
             (updateRange (params command CHR ''Y'') maxY minY maxY_update minY_update
               (updateRange (params command CHR ''X'') maxX minX maxX_update minX_update
                 ((snd acc)\<lparr> validCommands := validCommands (snd acc) + 1 \<rparr>)))))"

definition parseGCode :: "string \<Rightarrow> ParseResult" where
  "parseGCode content =
     (let lines = split CHR 0x0A content;
          acc = foldl parseLine
                  ([], \<lparr> totalLines = length lines, validCommands = 0,
                         maxX = NegInfinity, maxY = NegInfinity, maxZ = NegInfinity,
                         minX = Infinity, minY = Infinity, minZ = Infinity \<rparr>)
                  (enumerate 0 lines);
          st = snd acc
      in \<lparr> commands = fst acc,
           stats = \<lparr> totalLines = length lines, validCommands = validCommands st,
                     maxX = (if maxX st = NegInfinity then Num 0 else maxX st),
                     maxY = (if maxY st = NegInfinity then Num 0 else maxY st),
                     maxZ = (if maxZ st = NegInfinity then Num 0 else maxZ st),
                     minX = (if minX st = Infinity then Num 0 else minX st),
                     minY = (if minY st = Infinity then Num 0 else minY st),
                     minZ = (if minZ st = Infinity then Num 0 else minZ st) \<rparr> \<rparr>)"

subsection \<open>validateGCode\<close>

text \<open>
  The error messages are Chinese text with the line number and the offending token or line
  spliced in; a constructor stands for each of the three messages.
\<close>

datatype ValidationError =
  SyntaxError nat string | InvalidToken nat string | MissingContent nat string

record Validation =
  isValid :: bool
  errors :: "ValidationError list"

text \<open>The dot of a regular expression matches any character but a line terminator.\<close>

definition isLineTerminator :: "char \<Rightarrow> bool" where
  "isLineTerminator c = (c = CHR 0x0A \<or> c = CHR 0x0D)"

definition dotPlus :: "string \<Rightarrow> bool" where
  "dotPlus s = (s \<noteq> [] \<and> list_all (\<lambda>c. \<not> isLineTerminator c) s)"

text \<open>
  \<^verbatim>\<open>cleanLine.match(/^(N\d+\s+)?(.+)$/)\<close>; the result is the second group. The optional group
  is tried first, with the digits and then the spaces taken greedily and the spaces given
  back one by one; without the group the whole line is the second group.
\<close>

definition matchLine :: "string \<Rightarrow> string option" where
  "matchLine s =
     (let withIndex =
        (case s of
           c # t \<Rightarrow>
             if c = CHR ''N'' then
               (let ds = takeWhile isDigit t;
                    r1 = dropWhile isDigit t;
                    ws = takeWhile isSpace r1;
                    r2 = dropWhile isSpace r1
                in if ds = [] then None
                   else find dotPlus (map (\<lambda>k. drop k ws @ r2) (rev [1..<length ws + 1])))
             else None
         | [] \<Rightarrow> None)
      in case withIndex of
           Some r \<Rightarrow> Some r
         | None \<Rightarrow> if dotPlus s then Some s else None)"

text \<open>\<^verbatim>\<open>/^[GMT]\d+$/.test(part)\<close>\<close>

definition codeToken :: "string \<Rightarrow> bool" where
  "codeToken part =
     (case part of
        c # ds \<Rightarrow> c \<in> set ''GMT'' \<and> ds \<noteq> [] \<and> list_all isDigit ds
      | [] \<Rightarrow> False)"

text \<open>\<^verbatim>\<open>/^[XYZEFHSIJKR][-+]?\d*\.?\d*$/.test(part)\<close>\<close>

definition paramToken :: "string \<Rightarrow> bool" where
  "paramToken part =
     (case part of
        c # r0 \<Rightarrow>
          c \<in> set ''XYZEFHSIJKR'' \<and>
          (let r1 = (case r0 of d # t \<Rightarrow> if d = CHR ''-'' \<or> d = CHR ''+'' then t else r0 | [] \<Rightarrow> r0);
               r2 = dropWhile isDigit r1;
               r3 = (case r2 of d # t \<Rightarrow> if d = CHR ''.'' then t else r2 | [] \<Rightarrow> r2)
           in dropWhile isDigit r3 = [])
      | [] \<Rightarrow> False)"

text \<open>
  The loop \<^verbatim>\<open>for (const part of parts)\<close>: the first part that matches neither pattern ends it
  with an error (\<open>Inl\<close>); otherwise the final value of \<^verbatim>\<open>hasValidContent\<close>.
\<close>

fun checkParts :: "bool \<Rightarrow> string list \<Rightarrow> string + bool" where
  "checkParts hasValidContent [] = Inr hasValidContent"
| "checkParts hasValidContent (part # parts) =
     (if codeToken part \<or> paramToken part then checkParts True parts else Inl part)"

definition validateLine :: "nat \<times> string \<Rightarrow> ValidationError list" where
  "validateLine il =
     (let cleanLine = trim (hd (split CHR '';'' (snd il)))
      in if cleanLine = [] then []
      else
        case matchLine cleanLine of
          None \<Rightarrow> [SyntaxError (fst il + 1) cleanLine]
        | Some instructionPart \<Rightarrow>
            (case checkParts False (splitSpaces instructionPart) of
               Inl part \<Rightarrow> [InvalidToken (fst il + 1) part]
             | Inr hasValidContent \<Rightarrow>
                 if \<not> hasValidContent then [MissingContent (fst il + 1) cleanLine] else []))"

definition validateGCode :: "string \<Rightarrow> Validation" where
  "validateGCode content =
     (let errs = concat (map validateLine (enumerate 0 (split CHR 0x0A content)))
      in \<lparr> isValid = (length errs = 0), errors = errs \<rparr>)"

text \<open>
  For the statistics: the values a coordinate takes over a command list, in order, and the
  finite ones among them. The bounds as \<open>parseGCode\<close> reports them: the maximum is +Infinity
  when one of the values is, otherwise the greatest finite value; the minimum is -Infinity
  when one of the values is, otherwise the least finite value; and 0 where there is no such
  value (the axis does not appear, or appears only with the infinity of the other sign).
\<close>

definition axisValues :: "char \<Rightarrow> number GCodeCommand list \<Rightarrow> number list" where
  "axisValues k cs = List.map_filter (\<lambda>c. params c k) cs"

definition finiteValues :: "number list \<Rightarrow> real list" where
  "finiteValues vs = List.map_filter (\<lambda>v. case v of Num r \<Rightarrow> Some r | _ \<Rightarrow> None) vs"

definition axisMax :: "char \<Rightarrow> number GCodeCommand list \<Rightarrow> number" where
  "axisMax k cs =
     (if Infinity \<in> set (axisValues k cs) then Infinity
      else if finiteValues (axisValues k cs) = [] then Num 0
      else Num (Max (set (finiteValues (axisValues k cs)))))"

definition axisMin :: "char \<Rightarrow> number GCodeCommand list \<Rightarrow> number" where
  "axisMin k cs =
     (if NegInfinity \<in> set (axisValues k cs) then NegInfinity
      else if finiteValues (axisValues k cs) = [] then Num 0
      else Num (Min (set (finiteValues (axisValues k cs)))))"

text \<open>
  For the proofs about the parser: no value stored under a letter other than G, M and T is
  NaN, and the running bounds of \<open>parseGCode\<close> after the values so far.
\<close>

definition paramsNotNaN :: "(char \<Rightarrow> number option) \<Rightarrow> bool" where
  "paramsNotNaN m = (\<forall>k. k \<notin> set ''GMT'' \<longrightarrow> m k \<noteq> Some NaN)"

definition runMax :: "number list \<Rightarrow> number" where
  "runMax vs =
     (if Infinity \<in> set vs then Infinity
      else if finiteValues vs = [] then NegInfinity
      else Num (Max (set (finiteValues vs))))"

definition runMin :: "number list \<Rightarrow> number" where
  "runMin vs =
     (if NegInfinity \<in> set vs then NegInfinity
      else if finiteValues vs = [] then Infinity
      else Num (Min (set (finiteValues vs))))"

definition boundsInv :: "number GCodeCommand list \<times> Stats \<Rightarrow> bool" where
  "boundsInv acc =
     (list_all (\<lambda>c. params c CHR ''X'' \<noteq> Some NaN \<and> params c CHR ''Y'' \<noteq> Some NaN
                    \<and> params c CHR ''Z'' \<noteq> Some NaN) (fst acc)
      \<and> maxX (snd acc) = runMax (axisValues CHR ''X'' (fst acc))
      \<and> minX (snd acc) = runMin (axisValues CHR ''X'' (fst acc))
      \<and> maxY (snd acc) = runMax (axisValues CHR ''Y'' (fst acc))
      \<and> minY (snd acc) = runMin (axisValues CHR ''Y'' (fst acc))
      \<and> maxZ (snd acc) = runMax (axisValues CHR ''Z'' (fst acc))
      \<and> minZ (snd acc) = runMin (axisValues CHR ''Z'' (fst acc)))"

text \<open>
  A document that the validator accepts and whose X value is too large for a double: the
  feed move \<^verbatim>\<open>G1 X99...9\<close> with 310 nines.
\<close>

definition overflowDocument :: string where
  "overflowDocument = ''G1 X'' @ replicate 310 CHR ''9''"

section \<open>Properties of the generated segments\<close>

text \<open>
  The segments built so far: the pushed ones, then the open one.
\<close>

definition allSegments :: "GenState \<Rightarrow> PathSegment list" where
  "allSegments s = segments s @ (case currentSegment s of None \<Rightarrow> [] | Some cs \<Rightarrow> [cs])"

text \<open>Every point of a segment has the segment's move type.\<close>

definition uniformType :: "PathSegment \<Rightarrow> bool" where
  "uniformType seg = list_all (\<lambda>p. ptype p = stype seg) (points seg)"

text \<open>
  The extruding flag, read back from the points. The generator computes the flag of a move as
  \<^verbatim>\<open>newExtrusion > this.currentExtrusion\<close>; \<open>walkExtrusions f cur es\<close> follows the extrusion
  values \<open>es\<close> of successive points, starting from the extrusion \<open>cur\<close> before them, and returns
  the extrusion after them when every point agrees with the flag \<open>f\<close>: a point with extrusion
  \<open>e\<close> was emitted by a move whose flag is \<open>cur < e\<close>, and a point without extrusion (a home
  point) belongs to a segment that is not extruding. \<open>None\<close> is a disagreement. The first point
  of an arc segment is the start point of its first arc: it repeats the extrusion before the
  arc, and the flag is that of the arc's end point.
\<close>

fun walkExtrusions :: "bool \<Rightarrow> real \<Rightarrow> real option list \<Rightarrow> real option" where
  "walkExtrusions f cur [] = Some cur"
| "walkExtrusions f cur (None # es) = (if f then None else walkExtrusions f cur es)"
| "walkExtrusions f cur (Some e # es) = (if f = (cur < e) then walkExtrusions f e es else None)"

definition isArc :: "MoveType \<Rightarrow> bool" where
  "isArc ty = (ty = G2 \<or> ty = G3)"

definition walkSegment :: "real \<Rightarrow> PathSegment \<Rightarrow> real option" where
  "walkSegment cur seg =
     (if isArc (stype seg) then
        (case map extrusion (points seg) of
           [] \<Rightarrow> None
         | e # es \<Rightarrow> if e = Some cur then walkExtrusions (isExtruding seg) cur es else None)
      else walkExtrusions (isExtruding seg) cur (map extrusion (points seg)))"

fun walkSegments :: "real \<Rightarrow> PathSegment list \<Rightarrow> real option" where
  "walkSegments cur [] = Some cur"
| "walkSegments cur (g # gs) =
     (case walkSegment cur g of None \<Rightarrow> None | Some c \<Rightarrow> walkSegments c gs)"

text \<open>
  A segment opened by \<^verbatim>\<open>processHomeMove\<close> starts with the home point, the only kind of point
  without an extrusion value.
\<close>

definition homeStart :: "PathSegment \<Rightarrow> bool" where
  "homeStart seg = (case points seg of [] \<Rightarrow> False | p # _ \<Rightarrow> extrusion p = None)"

text \<open>Adjacent segments differ in type or flag: as the specification states it, and with
  segments opened by a home instruction exempted.\<close>

fun adjacentDiffer :: "PathSegment list \<Rightarrow> bool" where
  "adjacentDiffer (a # b # rest) =
     ((stype a \<noteq> stype b \<or> isExtruding a \<noteq> isExtruding b) \<and> adjacentDiffer (b # rest))"
| "adjacentDiffer _ = True"

fun adjacentDifferOrHome :: "PathSegment list \<Rightarrow> bool" where
  "adjacentDifferOrHome (a # b # rest) =
     ((stype a \<noteq> stype b \<or> isExtruding a \<noteq> isExtruding b \<or> homeStart b)
      \<and> adjacentDifferOrHome (b # rest))"
| "adjacentDifferOrHome _ = True"

text \<open>
  An arc segment holds at least two points, each with arc parameters, and its last two points
  (start and end point of its last arc) carry the same parameters.
\<close>

definition arcPaired :: "PathSegment \<Rightarrow> bool" where
  "arcPaired seg =
     (if isArc (stype seg) then
        2 \<le> length (points seg) \<and> list_all (\<lambda>p. pparams p \<noteq> None) (points seg)
        \<and> pparams (last (points seg)) = pparams (last (butlast (points seg)))
      else True)"

text \<open>The invariant of the generator's state: \<open>e\<close> is the current extrusion.\<close>

definition segsInv :: "PathSegment list \<Rightarrow> real \<Rightarrow> bool" where
  "segsInv gs e =
     (list_all (\<lambda>g. points g \<noteq> []) gs
      \<and> list_all uniformType gs
      \<and> list_all arcPaired gs
      \<and> adjacentDifferOrHome gs
      \<and> walkSegments 0 gs = Some e)"

definition genInv :: "GenState \<Rightarrow> bool" where
  "genInv s =
     ((currentSegment s = None \<longrightarrow> segments s = [])
      \<and> segsInv (allSegments s) (currentExtrusion s))"

section \<open>Verification of the path generator\<close>

lemma walkExtrusions_append:
  "walkExtrusions f cur (es @ fs) =
     (case walkExtrusions f cur es of None \<Rightarrow> None | Some c \<Rightarrow> walkExtrusions f c fs)"
  by (induction f cur es rule: walkExtrusions.induct) auto

lemma walkSegments_snoc:
  "walkSegments cur (gs @ [g]) =
     (case walkSegments cur gs of None \<Rightarrow> None | Some c \<Rightarrow> walkSegment c g)"
  by (induction gs arbitrary: cur) (auto split: option.splits)

lemma adjacentDifferOrHome_snoc:
  "adjacentDifferOrHome (gs @ [g]) =
     (adjacentDifferOrHome gs \<and>
      (gs = [] \<or> stype (last gs) \<noteq> stype g \<or> isExtruding (last gs) \<noteq> isExtruding g \<or> homeStart g))"
  by (induction gs rule: adjacentDifferOrHome.induct) auto

lemma setLastParams_extrusion [simp]:
  "map extrusion (setLastParams ap ps) = map extrusion ps"
proof (cases "ps = []")
  case True
  then show ?thesis by (simp add: setLastParams_def)
next
  case False
  then have "map extrusion ps = map extrusion (butlast ps @ [last ps])" by simp
  also have "\<dots> = map extrusion (butlast ps) @ [extrusion (last ps)]" by (simp del: append_butlast_last_id)
  finally show ?thesis using False by (simp add: setLastParams_def)
qed

lemma setLastParams_length [simp]: "length (setLastParams ap ps) = length ps"
  by (simp add: setLastParams_def)

lemma setLastParams_last: "ps \<noteq> [] \<Longrightarrow> pparams (last (setLastParams ap ps)) = Some ap"
  by (simp add: setLastParams_def)

lemma setLastParams_list_all:
  assumes upd: "\<And>p. P p \<Longrightarrow> P (p\<lparr> pparams := Some ap \<rparr>)" and all: "list_all P ps"
  shows "list_all P (setLastParams ap ps)"
proof (cases "ps = []")
  case True
  then show ?thesis by (simp add: setLastParams_def)
next
  case False
  have "set (butlast ps) \<subseteq> set ps" by (meson in_set_butlastD subsetI)
  with all have "list_all P (butlast ps)"
    by (auto simp: list_all_iff)
  moreover from all False have "P (last ps)" by (simp add: list_all_iff)
  ultimately show ?thesis using False upd by (simp add: setLastParams_def)
qed


lemma segsInv_append:
  assumes "segsInv gs e" "points g \<noteq> []" "uniformType g" "arcPaired g"
    and "gs = [] \<or> stype (last gs) \<noteq> stype g \<or> isExtruding (last gs) \<noteq> isExtruding g \<or> homeStart g"
    and "walkSegment e g = Some e'"
  shows "segsInv (gs @ [g]) e'"
  using assms by (simp add: segsInv_def walkSegments_snoc adjacentDifferOrHome_snoc)

lemma segsInv_extend:
  assumes inv: "segsInv (gs @ [a]) e"
    and same: "stype a' = stype a" "isExtruding a' = isExtruding a" "homeStart a' = homeStart a"
    and ok: "points a' \<noteq> []" "uniformType a'" "arcPaired a'"
    and walk: "\<And>e0. walkSegment e0 a = Some e \<Longrightarrow> walkSegment e0 a' = Some e'"
  shows "segsInv (gs @ [a']) e'"
proof -
  from inv obtain e0 where e0: "walkSegments 0 gs = Some e0" "walkSegment e0 a = Some e"
    by (auto simp: segsInv_def walkSegments_snoc split: option.splits)
  with walk have "walkSegments 0 (gs @ [a']) = Some e'"
    by (simp add: walkSegments_snoc)
  moreover from inv same have "adjacentDifferOrHome (gs @ [a'])"
    by (simp add: segsInv_def adjacentDifferOrHome_snoc)
  ultimately show ?thesis
    using inv ok by (simp add: segsInv_def)
qed

lemma genInv_reset: "genInv reset"
  by (simp add: genInv_def segsInv_def reset_def allSegments_def)

lemma genInv_current_nonempty:
  "genInv s \<Longrightarrow> currentSegment s = Some cs \<Longrightarrow> points cs \<noteq> []"
  by (simp add: genInv_def segsInv_def allSegments_def)

lemma finish_allSegments: "genInv s \<Longrightarrow> finish s = allSegments s"
  by (auto simp: finish_def allSegments_def dest: genInv_current_nonempty split: option.splits)

text \<open>The composite of the boundary test and the push.\<close>

lemma openSegment_same:
  "currentSegment s = Some cs \<Longrightarrow> stype cs = ty \<Longrightarrow> isExtruding cs = ex \<Longrightarrow>
   openSegment ty ex s = s"
  by (simp add: openSegment_def)

lemma openSegment_fresh:
  assumes "currentSegment s = None \<or> (\<exists>cs. currentSegment s = Some cs \<and> points cs \<noteq> [] \<and> (stype cs \<noteq> ty \<or> isExtruding cs \<noteq> ex))"
  shows "segments (openSegment ty ex s) = allSegments s"
    and "currentSegment (openSegment ty ex s) = Some \<lparr> points = [], stype = ty, isExtruding = ex \<rparr>"
  using assms by (auto simp: openSegment_def allSegments_def)

lemma genInv_linear:
  assumes inv: "genInv s" and ty: "ctype c = G0 \<or> ctype c = G1"
  shows "genInv (processLinearMove c s)"
proof -
  define ex where "ex = (calculateNewExtrusion s c > currentExtrusion s)"
  define pt where "pt = \<lparr> position = calculateNewPosition s c, ptype = ctype c,
      feedrate = Some (currentFeedrate s), extrusion = Some (calculateNewExtrusion s c),
      plineNumber = lineNumber c, pparams = None \<rparr>"
  define s1 where "s1 = pushPoint pt (openSegment (ctype c) ex s)"
  have s': "processLinearMove c s
      = s1\<lparr> currentPosition := calculateNewPosition s c, currentExtrusion := calculateNewExtrusion s c \<rparr>"
    by (simp add: processLinearMove_def Let_def s1_def pt_def ex_def)
  have notarc: "\<not> isArc (ctype c)" using ty by (auto simp: isArc_def)
  from inv have sinv: "segsInv (allSegments s) (currentExtrusion s)" by (simp add: genInv_def)
  show ?thesis
  proof (cases "\<exists>cs. currentSegment s = Some cs \<and> stype cs = ctype c \<and> isExtruding cs = ex")
    case True
    then obtain cs where cs: "currentSegment s = Some cs" "stype cs = ctype c" "isExtruding cs = ex"
      by blast
    have ne: "points cs \<noteq> []" using inv cs(1) by (rule genInv_current_nonempty)
    define cs' where "cs' = cs\<lparr> points := points cs @ [pt] \<rparr>"
    have s1: "segments s1 = segments s" "currentSegment s1 = Some cs'"
      using cs by (simp_all add: s1_def openSegment_same pushPoint_def cs'_def)
    have all: "allSegments s = segments s @ [cs]" using cs(1) by (simp add: allSegments_def)
    have ut: "uniformType cs" using sinv all by (simp add: segsInv_def)
    have "segsInv (segments s @ [cs']) (calculateNewExtrusion s c)"
    proof (rule segsInv_extend)
      show "segsInv (segments s @ [cs]) (currentExtrusion s)" using sinv all by simp
      show "stype cs' = stype cs" "isExtruding cs' = isExtruding cs" "points cs' \<noteq> []"
        by (simp_all add: cs'_def)
      show "homeStart cs' = homeStart cs" using ne
        by (cases "points cs") (simp_all add: homeStart_def cs'_def)
      show "uniformType cs'" using ut cs(2) by (simp add: uniformType_def cs'_def pt_def)
      show "arcPaired cs'" using notarc cs(2) by (simp add: arcPaired_def cs'_def)
      fix e0 assume "walkSegment e0 cs = Some (currentExtrusion s)"
      then show "walkSegment e0 cs' = Some (calculateNewExtrusion s c)"
        using notarc cs(2,3)
        by (simp add: walkSegment_def cs'_def walkExtrusions_append pt_def ex_def)
    qed
    then show ?thesis
      by (simp add: genInv_def s' allSegments_def s1)
  next
    case False
    then have fresh: "currentSegment s = None \<or> (\<exists>cs. currentSegment s = Some cs \<and> points cs \<noteq> []
        \<and> (stype cs \<noteq> ctype c \<or> isExtruding cs \<noteq> ex))"
      using inv by (cases "currentSegment s") (auto dest: genInv_current_nonempty)
    define new where "new = \<lparr> points = [pt], stype = ctype c, isExtruding = ex \<rparr>"
    have s1: "segments s1 = allSegments s" "currentSegment s1 = Some new"
      using openSegment_fresh [OF fresh] by (simp_all add: s1_def pushPoint_def new_def)
    have "segsInv (allSegments s @ [new]) (calculateNewExtrusion s c)"
    proof (rule segsInv_append [OF sinv])
      show "points new \<noteq> []" "uniformType new" "arcPaired new"
        using notarc by (simp_all add: new_def uniformType_def pt_def arcPaired_def)
      show "walkSegment (currentExtrusion s) new = Some (calculateNewExtrusion s c)"
        using notarc by (simp add: walkSegment_def new_def pt_def ex_def)
      show "allSegments s = [] \<or> stype (last (allSegments s)) \<noteq> stype new
          \<or> isExtruding (last (allSegments s)) \<noteq> isExtruding new \<or> homeStart new"
        using fresh inv by (auto simp: allSegments_def new_def genInv_def)
    qed
    then show ?thesis
      by (simp add: genInv_def s' allSegments_def s1)
  qed
qed


lemma genInv_arc:
  assumes inv: "genInv s" and ty: "ctype c = G2 \<or> ctype c = G3"
  shows "genInv (processArcMove c s)"
proof (cases "processArcMove c s = s")
  case True
  with inv show ?thesis by simp
next
  case moved: False
  define ex where "ex = (calculateNewExtrusion s c > currentExtrusion s)"
  define ap where "ap = \<lparr> arcI = params c CHR ''I'', arcJ = params c CHR ''J'', arcK = params c CHR ''K'' \<rparr>"
  define sp where "sp = \<lparr> position = currentPosition s, ptype = ctype c,
      feedrate = Some (currentFeedrate s), extrusion = Some (currentExtrusion s),
      plineNumber = lineNumber c, pparams = Some ap \<rparr>"
  define ep where "ep = \<lparr> position = arcEndPosition s c, ptype = ctype c,
      feedrate = Some (currentFeedrate s), extrusion = Some (calculateNewExtrusion s c),
      plineNumber = lineNumber c, pparams = Some ap \<rparr>"
  define s1 where "s1 = pushArcPoints sp ep ap (openSegment (ctype c) ex s)"
  have s': "processArcMove c s
      = s1\<lparr> currentPosition := arcEndPosition s c, currentExtrusion := calculateNewExtrusion s c \<rparr>"
    using moved
    by (simp add: processArcMove_def Let_def s1_def sp_def ep_def ap_def ex_def split: if_splits)
  have arc: "isArc (ctype c)" using ty by (auto simp: isArc_def)
  from inv have sinv: "segsInv (allSegments s) (currentExtrusion s)" by (simp add: genInv_def)
  show ?thesis
  proof (cases "\<exists>cs. currentSegment s = Some cs \<and> stype cs = ctype c \<and> isExtruding cs = ex")
    case True
    then obtain cs where cs: "currentSegment s = Some cs" "stype cs = ctype c" "isExtruding cs = ex"
      by blast
    have ne: "points cs \<noteq> []" using inv cs(1) by (rule genInv_current_nonempty)
    define cs' where "cs' = cs\<lparr> points := setLastParams ap (points cs) @ [ep] \<rparr>"
    have s1: "segments s1 = segments s" "currentSegment s1 = Some cs'"
      using cs ne by (simp_all add: s1_def openSegment_same pushArcPoints_def cs'_def)
    have all: "allSegments s = segments s @ [cs]" using cs(1) by (simp add: allSegments_def)
    have ut: "uniformType cs" and pr: "arcPaired cs" using sinv all by (simp_all add: segsInv_def)
    have "segsInv (segments s @ [cs']) (calculateNewExtrusion s c)"
    proof (rule segsInv_extend)
      show "segsInv (segments s @ [cs]) (currentExtrusion s)" using sinv all by simp
      show "stype cs' = stype cs" "isExtruding cs' = isExtruding cs" "points cs' \<noteq> []"
        by (simp_all add: cs'_def)
      have "map extrusion (points cs') = map extrusion (points cs) @ [extrusion ep]"
        by (simp add: cs'_def)
      then have "map_option extrusion (case points cs' of [] \<Rightarrow> None | p # _ \<Rightarrow> Some p)
          = map_option extrusion (case points cs of [] \<Rightarrow> None | p # _ \<Rightarrow> Some p)"
        using ne by (cases "points cs"; cases "points cs'") auto
      then show "homeStart cs' = homeStart cs" using ne
        by (cases "points cs"; cases "points cs'") (auto simp: homeStart_def cs'_def)
      show "uniformType cs'" using ut cs(2)
        by (simp add: uniformType_def cs'_def ep_def setLastParams_list_all)
      show "arcPaired cs'" using arc cs(2) pr ne
        by (simp add: arcPaired_def cs'_def setLastParams_list_all setLastParams_last ep_def)
      fix e0 assume "walkSegment e0 cs = Some (currentExtrusion s)"
      then show "walkSegment e0 cs' = Some (calculateNewExtrusion s c)"
        using arc cs(2,3) ne
        by (cases "points cs")
           (auto simp: walkSegment_def cs'_def walkExtrusions_append ep_def ex_def
                 split: if_splits list.splits)
    qed
    then show ?thesis
      by (simp add: genInv_def s' allSegments_def s1)
  next
    case False
    then have fresh: "currentSegment s = None \<or> (\<exists>cs. currentSegment s = Some cs \<and> points cs \<noteq> []
        \<and> (stype cs \<noteq> ctype c \<or> isExtruding cs \<noteq> ex))"
      using inv by (cases "currentSegment s") (auto dest: genInv_current_nonempty)
    define new where "new = \<lparr> points = [sp, ep], stype = ctype c, isExtruding = ex \<rparr>"
    have s1: "segments s1 = allSegments s" "currentSegment s1 = Some new"
      using openSegment_fresh [OF fresh] by (simp_all add: s1_def pushArcPoints_def new_def)
    have "segsInv (allSegments s @ [new]) (calculateNewExtrusion s c)"
    proof (rule segsInv_append [OF sinv])
      show "points new \<noteq> []" "uniformType new" "arcPaired new"
        using arc by (simp_all add: new_def uniformType_def sp_def ep_def arcPaired_def)
      show "walkSegment (currentExtrusion s) new = Some (calculateNewExtrusion s c)"
        using arc by (simp add: walkSegment_def new_def sp_def ep_def ex_def)
      show "allSegments s = [] \<or> stype (last (allSegments s)) \<noteq> stype new
          \<or> isExtruding (last (allSegments s)) \<noteq> isExtruding new \<or> homeStart new"
        using fresh inv by (auto simp: allSegments_def new_def genInv_def)
    qed
    then show ?thesis
      by (simp add: genInv_def s' allSegments_def s1)
  qed
qed

lemma genInv_home:
  assumes inv: "genInv s"
  shows "genInv (processHomeMove c s)"
proof -
  define pt where "pt = \<lparr> position = \<lparr> vx = 0, vy = 0, vz = 0 \<rparr>, ptype = G0,
      feedrate = Some (currentFeedrate s), extrusion = None,
      plineNumber = lineNumber c, pparams = None \<rparr>"
  define new where "new = \<lparr> points = [pt], stype = G0, isExtruding = False \<rparr>"
  have seg: "segments (processHomeMove c s) = allSegments s"
    using inv
    by (cases "currentSegment s")
       (auto simp: processHomeMove_def Let_def allSegments_def dest: genInv_current_nonempty)
  have cur: "currentSegment (processHomeMove c s) = Some new"
    by (simp add: processHomeMove_def Let_def new_def pt_def)
  have ext: "currentExtrusion (processHomeMove c s) = currentExtrusion s"
    by (simp add: processHomeMove_def Let_def)
  from inv have sinv: "segsInv (allSegments s) (currentExtrusion s)" by (simp add: genInv_def)
  have "segsInv (allSegments s @ [new]) (currentExtrusion s)"
  proof (rule segsInv_append [OF sinv])
    show "points new \<noteq> []" "uniformType new" "arcPaired new"
      by (simp_all add: new_def uniformType_def pt_def arcPaired_def isArc_def)
    show "walkSegment (currentExtrusion s) new = Some (currentExtrusion s)"
      by (simp add: walkSegment_def new_def pt_def isArc_def)
    show "allSegments s = [] \<or> stype (last (allSegments s)) \<noteq> stype new
        \<or> isExtruding (last (allSegments s)) \<noteq> isExtruding new \<or> homeStart new"
      by (simp add: homeStart_def new_def pt_def)
  qed
  then show ?thesis
    by (simp add: genInv_def allSegments_def seg cur ext)
qed

lemma genInv_feedrate: "genInv (s\<lparr> currentFeedrate := f \<rparr>) = genInv s"
  by (simp add: genInv_def allSegments_def)

lemma genInv_mode: "genInv (s\<lparr> isAbsolutePositioning := b \<rparr>) = genInv s"
  by (simp add: genInv_def allSegments_def)

lemma genInv_processCommand: "genInv s \<Longrightarrow> genInv (processCommand c s)"
  by (auto simp: processCommand_def Let_def genInv_feedrate genInv_mode
      intro: genInv_linear genInv_arc genInv_home split: option.splits)

lemma genInv_foldl: "genInv s \<Longrightarrow> genInv (foldl (\<lambda>s c. processCommand c s) s cmds)"
  by (induction cmds arbitrary: s) (simp_all add: genInv_processCommand)

lemma generatePath_segsInv: "\<exists>e. segsInv (generatePath cmds) e"
proof -
  have "genInv (foldl (\<lambda>s c. processCommand c s) reset cmds)"
    using genInv_reset by (rule genInv_foldl)
  then show ?thesis
    unfolding generatePath_def by (auto simp: finish_allSegments genInv_def)
qed

subsection \<open>Evaluating the generator\<close>

lemma distanceTo_less_iff:
  "0 < r \<Longrightarrow> distanceTo a b < r \<longleftrightarrow> (vx a - vx b)\<^sup>2 + (vy a - vy b)\<^sup>2 + (vz a - vz b)\<^sup>2 < r\<^sup>2"
  unfolding distanceTo_def
  using real_sqrt_less_iff [of "(vx a - vx b)\<^sup>2 + (vy a - vy b)\<^sup>2 + (vz a - vz b)\<^sup>2" "r\<^sup>2"]
  by simp

lemma distanceTo_small:
  "distanceTo a b * 1000 < 1 \<longleftrightarrow>
     ((vx a - vx b)\<^sup>2 + (vy a - vy b)\<^sup>2 + (vz a - vz b)\<^sup>2) * 1000000 < 1"
  using distanceTo_less_iff [of "1 / 1000" a b] by (simp add: power2_eq_square)

lemmas gen_defs = generatePath_def reset_def processCommand_def processHomeMove_def finish_def
  processLinearMove_def processArcMove_def openSegment_def pushPoint_def pushArcPoints_def
  setLastParams_def calculateNewPosition_def calculateNewExtrusion_def arcEndPosition_def
  arcCenter_def orZero_def Let_def

lemmas prop_defs = uniformType_def walkSegment_def isArc_def homeStart_def arcPaired_def

subsection \<open>The segment invariant\<close>

text \<open>
  Claim C1, as amended. For every command list, in the segment list returned by
  \<open>generatePath\<close>: every point of a segment has the segment's move type; the segment's
  extruding flag is the one computed for every point it holds (\<open>walkSegments\<close> follows the
  points from extrusion 0 and finds no disagreement); and of two adjacent segments, the type or
  the flag differs, or the later one was opened by a home instruction.
\<close>

theorem segment_invariant_home_exempt:
  "list_all uniformType (generatePath cmds)
   \<and> walkSegments 0 (generatePath cmds) \<noteq> None
   \<and> adjacentDifferOrHome (generatePath cmds)"
  using generatePath_segsInv [of cmds] by (auto simp: segsInv_def)

text \<open>
  The walk does tell a wrong flag: a point that raises the extrusion from 0 to 5 in a segment
  marked as not extruding is a disagreement.
\<close>

lemma walkSegments_wrong_flag:
  "walkSegments 0
     [\<lparr> points = [\<lparr> position = \<lparr> vx = 10, vy = 0, vz = 0 \<rparr>, ptype = G1, feedrate = Some 0,
                     extrusion = Some 5, plineNumber = 1, pparams = None \<rparr>],
         stype = G1, isExtruding = False \<rparr>] = None"
  by (simp add: walkSegment_def isArc_def)

text \<open>
  The theorem at the commands of \<^verbatim>\<open>G1 X10 E5\<close>, \<^verbatim>\<open>G1 X20\<close>, \<^verbatim>\<open>G28\<close>, \<^verbatim>\<open>G0\<close>: three segments, the
  last one opened by the home instruction and continued by the rapid move.
\<close>

theorem segment_invariant_home_exempt_witness:
  "map stype (generatePath
     [\<lparr> ctype = G1, lineNumber = 1, nNumber = None, params = [CHR ''G'' \<mapsto> 1, CHR ''X'' \<mapsto> 10, CHR ''E'' \<mapsto> 5], raw = ''G1 X10 E5'' \<rparr>,
      \<lparr> ctype = G1, lineNumber = 2, nNumber = None, params = [CHR ''G'' \<mapsto> 1, CHR ''X'' \<mapsto> 20], raw = ''G1 X20'' \<rparr>,
      \<lparr> ctype = G28, lineNumber = 3, nNumber = None, params = [CHR ''G'' \<mapsto> 28], raw = ''G28'' \<rparr>,
      \<lparr> ctype = G0, lineNumber = 4, nNumber = None, params = [CHR ''G'' \<mapsto> 0], raw = ''G0'' \<rparr>]) = [G1, G1, G0]
   \<and> map isExtruding (generatePath
     [\<lparr> ctype = G1, lineNumber = 1, nNumber = None, params = [CHR ''G'' \<mapsto> 1, CHR ''X'' \<mapsto> 10, CHR ''E'' \<mapsto> 5], raw = ''G1 X10 E5'' \<rparr>,
      \<lparr> ctype = G1, lineNumber = 2, nNumber = None, params = [CHR ''G'' \<mapsto> 1, CHR ''X'' \<mapsto> 20], raw = ''G1 X20'' \<rparr>,
      \<lparr> ctype = G28, lineNumber = 3, nNumber = None, params = [CHR ''G'' \<mapsto> 28], raw = ''G28'' \<rparr>,
      \<lparr> ctype = G0, lineNumber = 4, nNumber = None, params = [CHR ''G'' \<mapsto> 0], raw = ''G0'' \<rparr>]) = [True, False, False]
   \<and> list_all uniformType (generatePath
     [\<lparr> ctype = G1, lineNumber = 1, nNumber = None, params = [CHR ''G'' \<mapsto> 1, CHR ''X'' \<mapsto> 10, CHR ''E'' \<mapsto> 5], raw = ''G1 X10 E5'' \<rparr>,
      \<lparr> ctype = G1, lineNumber = 2, nNumber = None, params = [CHR ''G'' \<mapsto> 1, CHR ''X'' \<mapsto> 20], raw = ''G1 X20'' \<rparr>,
      \<lparr> ctype = G28, lineNumber = 3, nNumber = None, params = [CHR ''G'' \<mapsto> 28], raw = ''G28'' \<rparr>,
      \<lparr> ctype = G0, lineNumber = 4, nNumber = None, params = [CHR ''G'' \<mapsto> 0], raw = ''G0'' \<rparr>])
   \<and> walkSegments 0 (generatePath
     [\<lparr> ctype = G1, lineNumber = 1, nNumber = None, params = [CHR ''G'' \<mapsto> 1, CHR ''X'' \<mapsto> 10, CHR ''E'' \<mapsto> 5], raw = ''G1 X10 E5'' \<rparr>,
      \<lparr> ctype = G1, lineNumber = 2, nNumber = None, params = [CHR ''G'' \<mapsto> 1, CHR ''X'' \<mapsto> 20], raw = ''G1 X20'' \<rparr>,
      \<lparr> ctype = G28, lineNumber = 3, nNumber = None, params = [CHR ''G'' \<mapsto> 28], raw = ''G28'' \<rparr>,
      \<lparr> ctype = G0, lineNumber = 4, nNumber = None, params = [CHR ''G'' \<mapsto> 0], raw = ''G0'' \<rparr>]) = Some 5
   \<and> adjacentDifferOrHome (generatePath
     [\<lparr> ctype = G1, lineNumber = 1, nNumber = None, params = [CHR ''G'' \<mapsto> 1, CHR ''X'' \<mapsto> 10, CHR ''E'' \<mapsto> 5], raw = ''G1 X10 E5'' \<rparr>,
      \<lparr> ctype = G1, lineNumber = 2, nNumber = None, params = [CHR ''G'' \<mapsto> 1, CHR ''X'' \<mapsto> 20], raw = ''G1 X20'' \<rparr>,
      \<lparr> ctype = G28, lineNumber = 3, nNumber = None, params = [CHR ''G'' \<mapsto> 28], raw = ''G28'' \<rparr>,
      \<lparr> ctype = G0, lineNumber = 4, nNumber = None, params = [CHR ''G'' \<mapsto> 0], raw = ''G0'' \<rparr>])"
  using segment_invariant_home_exempt [of
     "[\<lparr> ctype = G1, lineNumber = 1, nNumber = None, params = [CHR ''G'' \<mapsto> 1, CHR ''X'' \<mapsto> 10, CHR ''E'' \<mapsto> 5], raw = ''G1 X10 E5'' \<rparr>,
      \<lparr> ctype = G1, lineNumber = 2, nNumber = None, params = [CHR ''G'' \<mapsto> 1, CHR ''X'' \<mapsto> 20], raw = ''G1 X20'' \<rparr>,
      \<lparr> ctype = G28, lineNumber = 3, nNumber = None, params = [CHR ''G'' \<mapsto> 28], raw = ''G28'' \<rparr>,
      \<lparr> ctype = G0, lineNumber = 4, nNumber = None, params = [CHR ''G'' \<mapsto> 0], raw = ''G0'' \<rparr>]"]
  by (simp add: gen_defs prop_defs)

text \<open>
  Without the exemption the adjacency part fails: \<^verbatim>\<open>processHomeMove\<close> closes the open segment
  whatever its type, so \<^verbatim>\<open>G0\<close> followed by \<^verbatim>\<open>G28\<close> gives two adjacent rapid-move segments
  that are both not extruding.
\<close>

theorem adjacent_segments_counterexample:
  "\<not> adjacentDiffer (generatePath
     [\<lparr> ctype = G0, lineNumber = 1, nNumber = None, params = [CHR ''G'' \<mapsto> 0], raw = ''G0'' \<rparr>,
      \<lparr> ctype = G28, lineNumber = 2, nNumber = None, params = [CHR ''G'' \<mapsto> 28], raw = ''G28'' \<rparr>])"
  by (simp add: gen_defs)

subsection \<open>Home moves\<close>

text \<open>Whatever the home line names, the position after it is the origin.\<close>

lemma processHomeMove_position:
  "currentPosition (processHomeMove c s) = \<lparr> vx = 0, vy = 0, vz = 0 \<rparr>"
  by (simp add: processHomeMove_def Let_def)

text \<open>
  Claim C2 says that a home instruction resets only the axes named on its line. The code at
  \<^verbatim>\<open>G1 X10 Y20\<close> followed by \<^verbatim>\<open>G28 X0\<close>: the home point lies at (0, 0, 0), so the Y axis, which
  the home line does not name, is reset from 20 to 0 as well.
\<close>

theorem home_resets_unnamed_axes:
  "generatePath
     [\<lparr> ctype = G1, lineNumber = 1, nNumber = None,
        params = [CHR ''G'' \<mapsto> 1, CHR ''X'' \<mapsto> 10, CHR ''Y'' \<mapsto> 20], raw = ''G1 X10 Y20'' \<rparr>,
      \<lparr> ctype = G28, lineNumber = 2, nNumber = None,
        params = [CHR ''G'' \<mapsto> 28, CHR ''X'' \<mapsto> 0], raw = ''G28 X0'' \<rparr>]
   = [\<lparr> points = [\<lparr> position = \<lparr> vx = 10, vy = 20, vz = 0 \<rparr>, ptype = G1, feedrate = Some 0,
          extrusion = Some 0, plineNumber = 1, pparams = None \<rparr>], stype = G1, isExtruding = False \<rparr>,
      \<lparr> points = [\<lparr> position = \<lparr> vx = 0, vy = 0, vz = 0 \<rparr>, ptype = G0, feedrate = Some 0,
          extrusion = None, plineNumber = 2, pparams = None \<rparr>], stype = G0, isExtruding = False \<rparr>]"
  by (simp add: gen_defs)

subsection \<open>Arc points\<close>

text \<open>
  Claim C3, as amended. In every segment list returned by \<open>generatePath\<close>, each arc segment
  holds at least two points, every point of it carries arc parameters, and its last two points,
  the start and end point of the last arc of the segment, carry identical parameters.
\<close>

theorem arc_last_pair:
  "list_all arcPaired (generatePath cmds)"
  using generatePath_segsInv [of cmds] by (auto simp: segsInv_def)

text \<open>The theorem at two clockwise arcs that share a segment.\<close>

theorem arc_last_pair_witness:
  "list_all arcPaired (generatePath
     [\<lparr> ctype = G2, lineNumber = 1, nNumber = None,
        params = [CHR ''G'' \<mapsto> 2, CHR ''X'' \<mapsto> 10, CHR ''Y'' \<mapsto> 0, CHR ''I'' \<mapsto> 5, CHR ''J'' \<mapsto> 0],
        raw = ''G2 X10 Y0 I5 J0'' \<rparr>,
      \<lparr> ctype = G2, lineNumber = 2, nNumber = None,
        params = [CHR ''G'' \<mapsto> 2, CHR ''X'' \<mapsto> 20, CHR ''Y'' \<mapsto> 0, CHR ''I'' \<mapsto> 6, CHR ''J'' \<mapsto> 0],
        raw = ''G2 X20 Y0 I6 J0'' \<rparr>])
   \<and> map (map pparams \<circ> points) (generatePath
     [\<lparr> ctype = G2, lineNumber = 1, nNumber = None,
        params = [CHR ''G'' \<mapsto> 2, CHR ''X'' \<mapsto> 10, CHR ''Y'' \<mapsto> 0, CHR ''I'' \<mapsto> 5, CHR ''J'' \<mapsto> 0],
        raw = ''G2 X10 Y0 I5 J0'' \<rparr>,
      \<lparr> ctype = G2, lineNumber = 2, nNumber = None,
        params = [CHR ''G'' \<mapsto> 2, CHR ''X'' \<mapsto> 20, CHR ''Y'' \<mapsto> 0, CHR ''I'' \<mapsto> 6, CHR ''J'' \<mapsto> 0],
        raw = ''G2 X20 Y0 I6 J0'' \<rparr>])
     = [[Some \<lparr> arcI = Some 5, arcJ = Some 0, arcK = None \<rparr>,
         Some \<lparr> arcI = Some 6, arcJ = Some 0, arcK = None \<rparr>,
         Some \<lparr> arcI = Some 6, arcJ = Some 0, arcK = None \<rparr>]]"
  using arc_last_pair [of
     "[\<lparr> ctype = G2, lineNumber = 1, nNumber = None,
        params = [CHR ''G'' \<mapsto> 2, CHR ''X'' \<mapsto> 10, CHR ''Y'' \<mapsto> 0, CHR ''I'' \<mapsto> 5, CHR ''J'' \<mapsto> 0],
        raw = ''G2 X10 Y0 I5 J0'' \<rparr>,
      \<lparr> ctype = G2, lineNumber = 2, nNumber = None,
        params = [CHR ''G'' \<mapsto> 2, CHR ''X'' \<mapsto> 20, CHR ''Y'' \<mapsto> 0, CHR ''I'' \<mapsto> 6, CHR ''J'' \<mapsto> 0],
        raw = ''G2 X20 Y0 I6 J0'' \<rparr>]"]
  by (simp add: gen_defs prop_defs distanceTo_small)

text \<open>
  The start and end point of an arc need not agree in the returned list: the second arc of a
  segment overwrites the parameters of the end point of the first. Here the first arc has
  I = 5; its start point keeps I = 5 and its end point, at (10, 0, 0), ends with I = 6.
\<close>

theorem arc_pair_counterexample:
  "generatePath
     [\<lparr> ctype = G2, lineNumber = 1, nNumber = None,
        params = [CHR ''G'' \<mapsto> 2, CHR ''X'' \<mapsto> 10, CHR ''Y'' \<mapsto> 0, CHR ''I'' \<mapsto> 5, CHR ''J'' \<mapsto> 0],
        raw = ''G2 X10 Y0 I5 J0'' \<rparr>,
      \<lparr> ctype = G2, lineNumber = 2, nNumber = None,
        params = [CHR ''G'' \<mapsto> 2, CHR ''X'' \<mapsto> 20, CHR ''Y'' \<mapsto> 0, CHR ''I'' \<mapsto> 6, CHR ''J'' \<mapsto> 0],
        raw = ''G2 X20 Y0 I6 J0'' \<rparr>]
   = [\<lparr> points =
         [\<lparr> position = \<lparr> vx = 0, vy = 0, vz = 0 \<rparr>, ptype = G2, feedrate = Some 0,
            extrusion = Some 0, plineNumber = 1,
            pparams = Some \<lparr> arcI = Some 5, arcJ = Some 0, arcK = None \<rparr> \<rparr>,
          \<lparr> position = \<lparr> vx = 10, vy = 0, vz = 0 \<rparr>, ptype = G2, feedrate = Some 0,
            extrusion = Some 0, plineNumber = 1,
            pparams = Some \<lparr> arcI = Some 6, arcJ = Some 0, arcK = None \<rparr> \<rparr>,
          \<lparr> position = \<lparr> vx = 20, vy = 0, vz = 0 \<rparr>, ptype = G2, feedrate = Some 0,
            extrusion = Some 0, plineNumber = 2,
            pparams = Some \<lparr> arcI = Some 6, arcJ = Some 0, arcK = None \<rparr> \<rparr>],
        stype = G2, isExtruding = False \<rparr>]"
  by (simp add: gen_defs distanceTo_small)

subsection \<open>Home moves and the feedrate\<close>

text \<open>
  Claim C5, as amended. Processing a home instruction emits a point that carries the
  interpreter's current feedrate, and afterwards the feedrate is the F parameter of the home
  line when there is one, and unchanged otherwise.
\<close>

theorem home_feedrate:
  assumes "ctype c = G28"
  shows "currentSegment (processCommand c s)
           = Some \<lparr> points = [\<lparr> position = \<lparr> vx = 0, vy = 0, vz = 0 \<rparr>, ptype = G0,
                                feedrate = Some (currentFeedrate s), extrusion = None,
                                plineNumber = lineNumber c, pparams = None \<rparr>],
                     stype = G0, isExtruding = False \<rparr>
         \<and> currentFeedrate (processCommand c s)
           = (case params c CHR ''F'' of None \<Rightarrow> currentFeedrate s | Some f \<Rightarrow> f)"
  using assms by (simp add: processCommand_def processHomeMove_def Let_def split: option.splits)

text \<open>The theorem at \<^verbatim>\<open>G28 F1500\<close>, processed at feedrate 600.\<close>

theorem home_feedrate_witness:
  "ctype \<lparr> ctype = G28, lineNumber = 3, nNumber = None,
           params = [CHR ''G'' \<mapsto> 28, CHR ''F'' \<mapsto> 1500], raw = ''G28 F1500'' \<rparr> = G28
   \<and> currentSegment (processCommand
        \<lparr> ctype = G28, lineNumber = 3, nNumber = None,
          params = [CHR ''G'' \<mapsto> 28, CHR ''F'' \<mapsto> 1500], raw = ''G28 F1500'' \<rparr>
        (reset\<lparr> currentFeedrate := 600 \<rparr>))
       = Some \<lparr> points = [\<lparr> position = \<lparr> vx = 0, vy = 0, vz = 0 \<rparr>, ptype = G0,
                            feedrate = Some 600, extrusion = None,
                            plineNumber = 3, pparams = None \<rparr>],
                 stype = G0, isExtruding = False \<rparr>
   \<and> currentFeedrate (processCommand
        \<lparr> ctype = G28, lineNumber = 3, nNumber = None,
          params = [CHR ''G'' \<mapsto> 28, CHR ''F'' \<mapsto> 1500], raw = ''G28 F1500'' \<rparr>
        (reset\<lparr> currentFeedrate := 600 \<rparr>)) = 1500"
  using home_feedrate [of
        "\<lparr> ctype = G28, lineNumber = 3, nNumber = None,
          params = [CHR ''G'' \<mapsto> 28, CHR ''F'' \<mapsto> 1500], raw = ''G28 F1500'' \<rparr>"
        "reset\<lparr> currentFeedrate := 600 \<rparr>"]
  by (simp add: reset_def)

text \<open>
  The feedrate is both written and read: \<^verbatim>\<open>G28 F1500\<close> changes it from 0 to 1500, and the home
  point emitted at feedrate 600 differs from the one emitted at feedrate 0.
\<close>

theorem home_feedrate_counterexample:
  "currentFeedrate (processCommand
        \<lparr> ctype = G28, lineNumber = 1, nNumber = None,
          params = [CHR ''G'' \<mapsto> 28, CHR ''F'' \<mapsto> 1500], raw = ''G28 F1500'' \<rparr> reset)
     \<noteq> currentFeedrate reset
   \<and> currentSegment (processCommand
        \<lparr> ctype = G28, lineNumber = 1, nNumber = None,
          params = [CHR ''G'' \<mapsto> 28], raw = ''G28'' \<rparr> (reset\<lparr> currentFeedrate := 600 \<rparr>))
     \<noteq> currentSegment (processCommand
        \<lparr> ctype = G28, lineNumber = 1, nNumber = None,
          params = [CHR ''G'' \<mapsto> 28], raw = ''G28'' \<rparr> reset)"
  by (simp add: processCommand_def processHomeMove_def reset_def Let_def)

subsection \<open>Skipped arcs\<close>

text \<open>
  Claim C6. For an arc instruction whose resolved end position equals the start in X and Y, or
  whose centre lies less than 0.001 from the start, \<open>processArcMove\<close> changes nothing: no point
  is emitted, and position, extrusion, positioning mode, open segment and segment list are the
  same after \<open>processCommand\<close> as before.
\<close>

theorem arc_skip_atomic:
  assumes "ctype c = G2 \<or> ctype c = G3"
    and "(vx (arcEndPosition s c) = vx (currentPosition s)
          \<and> vy (arcEndPosition s c) = vy (currentPosition s))
         \<or> distanceTo (arcCenter s c) (currentPosition s) < 0.001"
  shows "processArcMove c s = s
         \<and> currentPosition (processCommand c s) = currentPosition s
         \<and> currentExtrusion (processCommand c s) = currentExtrusion s
         \<and> isAbsolutePositioning (processCommand c s) = isAbsolutePositioning s
         \<and> currentSegment (processCommand c s) = currentSegment s
         \<and> segments (processCommand c s) = segments s"
proof -
  have skip: "processArcMove c s = s"
    using assms(2) by (auto simp: processArcMove_def Let_def)
  with assms(1) show ?thesis
    by (auto simp: processCommand_def split: option.splits)
qed

text \<open>An arc without offsets, so of radius 0, from (1, 2, 3): only the feedrate changes.\<close>

theorem arc_skip_atomic_witness:
  "(ctype \<lparr> ctype = G2, lineNumber = 7, nNumber = None,
            params = [CHR ''G'' \<mapsto> 2, CHR ''X'' \<mapsto> 10, CHR ''F'' \<mapsto> 1200], raw = ''G2 X10 F1200'' \<rparr> = G2)
   \<and> distanceTo
        (arcCenter (reset\<lparr> currentPosition := \<lparr> vx = 1, vy = 2, vz = 3 \<rparr> \<rparr>)
           \<lparr> ctype = G2, lineNumber = 7, nNumber = None,
             params = [CHR ''G'' \<mapsto> 2, CHR ''X'' \<mapsto> 10, CHR ''F'' \<mapsto> 1200], raw = ''G2 X10 F1200'' \<rparr>)
        (currentPosition (reset\<lparr> currentPosition := \<lparr> vx = 1, vy = 2, vz = 3 \<rparr> \<rparr>)) < 0.001
   \<and> processCommand
        \<lparr> ctype = G2, lineNumber = 7, nNumber = None,
          params = [CHR ''G'' \<mapsto> 2, CHR ''X'' \<mapsto> 10, CHR ''F'' \<mapsto> 1200], raw = ''G2 X10 F1200'' \<rparr>
        (reset\<lparr> currentPosition := \<lparr> vx = 1, vy = 2, vz = 3 \<rparr> \<rparr>)
      = reset\<lparr> currentPosition := \<lparr> vx = 1, vy = 2, vz = 3 \<rparr>, currentFeedrate := 1200 \<rparr>"
  using arc_skip_atomic [of
        "\<lparr> ctype = G2, lineNumber = 7, nNumber = None,
          params = [CHR ''G'' \<mapsto> 2, CHR ''X'' \<mapsto> 10, CHR ''F'' \<mapsto> 1200], raw = ''G2 X10 F1200'' \<rparr>"
        "reset\<lparr> currentPosition := \<lparr> vx = 1, vy = 2, vz = 3 \<rparr> \<rparr>"]
  by (simp add: reset_def arcCenter_def orZero_def distanceTo_def processCommand_def Let_def)

section \<open>Verification of the trajectory synthesizer\<close>

subsection \<open>Frames of a straight pair of points\<close>





subsection \<open>Frame times\<close>

lemma distanceTo_nonneg [simp]: "0 \<le> distanceTo a b"
  by (simp add: distanceTo_def)

lemma chordLength_nonneg [simp]: "0 \<le> chordLength ps"
  by (induction ps rule: chordLength.induct) (simp_all add: distanceTo2_def)

lemma arcLength_nonneg [simp]: "0 \<le> arcLength ext cw ap p1 p2"
  by (simp add: arcLength_def Let_def split: prod.splits)















subsection \<open>The synthesizer at concrete segments\<close>






section \<open>Verification of the parser and the validator\<close>

subsection \<open>Upper-casing commutes with the splitting of a line\<close>

lemma upperChar_cases:
  "(c \<in> set ''abcdefghijklmnopqrstuvwxyz'' \<and> upperChar c \<in> set ''ABCDEFGHIJKLMNOPQRSTUVWXYZ'')
   \<or> (c \<notin> set ''abcdefghijklmnopqrstuvwxyz'' \<and> upperChar c = c)"
  by (cases "c \<in> set ''abcdefghijklmnopqrstuvwxyz''") (auto simp: upperChar_def)

lemma upper_not_lower:
  "u \<in> set ''ABCDEFGHIJKLMNOPQRSTUVWXYZ'' \<Longrightarrow> u \<notin> set ''abcdefghijklmnopqrstuvwxyz''"
  by auto

lemma upperChar_idem [simp]: "upperChar (upperChar c) = upperChar c"
  by (metis upperChar_cases upper_not_lower)

lemma letters_not_space:
  "c \<in> set ''abcdefghijklmnopqrstuvwxyz'' \<or> c \<in> set ''ABCDEFGHIJKLMNOPQRSTUVWXYZ'' \<Longrightarrow>
   \<not> isSpace c \<and> c \<noteq> CHR '';''"
  by (auto simp: isSpace_def)

lemma upperChar_space [simp]: "isSpace (upperChar c) = isSpace c"
  by (metis upperChar_cases letters_not_space)

lemma upperChar_semicolon [simp]: "(upperChar c = CHR '';'') = (c = CHR '';'')"
  by (metis upperChar_cases letters_not_space)

lemma toUpperCase_idem [simp]: "toUpperCase (toUpperCase s) = toUpperCase s"
  by (simp add: toUpperCase_def)

lemma split_nonempty [simp]: "split sep s \<noteq> []"
  by (induction s) (auto split: list.splits)

lemma split_toUpperCase:
  "split CHR '';'' (toUpperCase s) = map toUpperCase (split CHR '';'' s)"
proof (induction s)
  case Nil
  then show ?case by (simp add: toUpperCase_def)
next
  case (Cons c s)
  then show ?case
    by (cases "split CHR '';'' s") (auto simp: toUpperCase_def)
qed

lemma splitSpaces_nonempty [simp]: "splitSpaces s \<noteq> []"
proof (induction s)
  case Nil
  then show ?case by (simp add: splitSpaces.simps(1))
next
  case (Cons c cs)
  then show ?case
    by (subst splitSpaces.simps(2)) (auto split: list.splits)
qed

lemma toUpperCase_Cons: "toUpperCase (c # cs) = upperChar c # toUpperCase cs"
  by (simp add: toUpperCase_def)

lemma splitSpaces_toUpperCase:
  "splitSpaces (toUpperCase s) = map toUpperCase (splitSpaces s)"
proof (induction s)
  case Nil
  then show ?case by (simp add: toUpperCase_def splitSpaces.simps(1))
next
  case (Cons c cs)
  have l: "splitSpaces (toUpperCase (c # cs)) =
      (if isSpace c then
        (case toUpperCase cs of
           d # _ \<Rightarrow> if isSpace d then splitSpaces (toUpperCase cs)
                    else [] # splitSpaces (toUpperCase cs)
         | [] \<Rightarrow> [[], []])
      else (case splitSpaces (toUpperCase cs) of
              t # ts \<Rightarrow> (upperChar c # t) # ts | [] \<Rightarrow> [[upperChar c]]))"
    by (simp add: toUpperCase_Cons splitSpaces.simps(2))
  have r: "splitSpaces (c # cs) =
      (if isSpace c then
        (case cs of
           d # _ \<Rightarrow> if isSpace d then splitSpaces cs else [] # splitSpaces cs
         | [] \<Rightarrow> [[], []])
      else (case splitSpaces cs of t # ts \<Rightarrow> (c # t) # ts | [] \<Rightarrow> [[c]]))"
    by (rule splitSpaces.simps(2))
  have h: "(case toUpperCase cs of d # _ \<Rightarrow> f d | [] \<Rightarrow> g)
      = (case cs of d # _ \<Rightarrow> f (upperChar d) | [] \<Rightarrow> g)" for f :: "char \<Rightarrow> string list" and g
    by (cases cs) (simp_all add: toUpperCase_def)
  have e: "toUpperCase [] = []" by (simp add: toUpperCase_def)
  show ?case
  proof (cases "isSpace c")
    case True
    then show ?thesis
      unfolding l r h Cons.IH by (simp add: e split: list.splits)
  next
    case False
    then show ?thesis
      unfolding l r Cons.IH
      by (cases "splitSpaces cs") (simp_all add: toUpperCase_Cons)
  qed
qed

lemma dropWhile_toUpperCase:
  "dropWhile isSpace (toUpperCase s) = toUpperCase (dropWhile isSpace s)"
  by (induction s) (simp_all add: toUpperCase_def)

lemma trim_toUpperCase: "trim (toUpperCase s) = toUpperCase (trim s)"
proof -
  have r: "rev (toUpperCase s) = toUpperCase (rev s)" for s
    by (simp add: toUpperCase_def rev_map)
  show ?thesis
    by (simp add: trim_def dropWhile_toUpperCase r)
qed

lemma parsePart_toUpperCase: "parsePart ps (toUpperCase p) = parsePart ps p"
  by (simp only: parsePart_def toUpperCase_idem)

lemma foldl_parsePart_toUpperCase:
  "foldl parsePart ps (map toUpperCase parts) = foldl parsePart ps parts"
  by (induction parts arbitrary: ps) (simp_all add: parsePart_toUpperCase)

lemma parseCommand_toUpperCase:
  "parseCommand (toUpperCase line) n
     = map_option (\<lambda>c. c\<lparr> raw := toUpperCase line \<rparr>) (parseCommand line n)"
proof -
  have "hd (split CHR '';'' (toUpperCase line)) = toUpperCase (hd (split CHR '';'' line))"
    by (simp add: split_toUpperCase hd_map)
  then have clean: "trim (hd (split CHR '';'' (toUpperCase line)))
      = toUpperCase (trim (hd (split CHR '';'' line)))"
    by (simp add: trim_toUpperCase)
  have empty: "(toUpperCase s = []) = (s = [])" for s
    by (simp add: toUpperCase_def)
  show ?thesis
    unfolding parseCommand_def Let_def clean
    by (simp add: empty splitSpaces_toUpperCase foldl_parsePart_toUpperCase)
qed

subsection \<open>Tokens the validator accepts\<close>

lemma codeToken_shape:
  assumes "codeToken part"
  shows "\<exists>c rest. part = c # rest \<and> c \<in> set ''GMTXYZEFHSIJKR''
           \<and> list_all (\<lambda>d. isDigit d \<or> d \<in> set ''+-.'') rest"
  using assms by (cases part) (auto simp: codeToken_def list_all_iff)

lemma paramToken_shape:
  assumes "paramToken part"
  shows "\<exists>c rest. part = c # rest \<and> c \<in> set ''GMTXYZEFHSIJKR''
           \<and> list_all (\<lambda>d. isDigit d \<or> d \<in> set ''+-.'') rest"
proof (cases part)
  case Nil
  with assms show ?thesis by (simp add: paramToken_def)
next
  case (Cons c r0)
  define r1 where "r1 = (case r0 of d # t \<Rightarrow> if d = CHR ''-'' \<or> d = CHR ''+'' then t else r0 | [] \<Rightarrow> r0)"
  define r2 where "r2 = dropWhile isDigit r1"
  define r3 where "r3 = (case r2 of d # t \<Rightarrow> if d = CHR ''.'' then t else r2 | [] \<Rightarrow> r2)"
  let ?ok = "\<lambda>d. isDigit d \<or> d \<in> set ''+-.''"
  from assms Cons have "c \<in> set ''XYZEFHSIJKR'' \<and>
      (let r1 = (case r0 of d # t \<Rightarrow> if d = CHR ''-'' \<or> d = CHR ''+'' then t else r0 | [] \<Rightarrow> r0);
           r2 = dropWhile isDigit r1;
           r3 = (case r2 of d # t \<Rightarrow> if d = CHR ''.'' then t else r2 | [] \<Rightarrow> r2)
       in dropWhile isDigit r3 = [])"
    by (simp only: paramToken_def list.case)
  then have c: "c \<in> set ''XYZEFHSIJKR''" and e: "dropWhile isDigit r3 = []"
    unfolding Let_def r1_def [symmetric] r2_def [symmetric] r3_def [symmetric] by blast+
  from e have "list_all isDigit r3" by (simp add: dropWhile_eq_Nil_conv list_all_iff)
  then have k3: "list_all ?ok r3" by (auto simp: list_all_iff)
  have "r2 = r3 \<or> r2 = CHR ''.'' # r3"
    by (cases r2) (auto simp: r3_def)
  with k3 have k2: "list_all ?ok r2" by auto
  have "r1 = takeWhile isDigit r1 @ r2" by (simp add: r2_def)
  moreover have "list_all ?ok (takeWhile isDigit r1)"
    by (auto simp: list_all_iff dest: set_takeWhileD)
  ultimately have k1: "list_all ?ok r1" using k2 by (metis list_all_append)
  have "r0 = r1 \<or> r0 = CHR ''-'' # r1 \<or> r0 = CHR ''+'' # r1"
    by (cases r0) (auto simp: r1_def)
  with k1 have "list_all ?ok r0" by auto
  with c Cons show ?thesis by auto
qed

subsection \<open>Parsing and validating concrete lines\<close>

lemmas parse_defs = parseCommand_def parsePart_def splitSpaces.simps toDouble_def trim_def toUpperCase_def upperChar_def
  isSpace_def isDigit_def parseInt_def parseFloat_def takeSign_def decimalValue_def
  digitValue_def falsy_def gCode_def mCode_def isNaN_def Let_def

lemmas validate_defs = validateGCode_def validateLine_def splitSpaces.simps matchLine_def dotPlus_def
  isLineTerminator_def codeToken_def paramToken_def trim_def isSpace_def isDigit_def Let_def
  enumerate_eq_zip

text \<open>
  Claim C10. Parsing is case-insensitive and validation is case-sensitive. For every line,
  \<open>parseCommand\<close> returns for the upper-cased line the instruction it returns for the line
  itself (the same type, line number, N number and parameters; \<open>raw\<close>, the copy of the text
  that was passed in, is the upper-cased text). A token that \<^verbatim>\<open>validateGCode\<close> accepts starts
  with one of the upper-case letters G, M, T, X, Y, Z, E, F, H, S, I, J, K, R and continues
  with digits, signs and dots only. The document \<^verbatim>\<open>g1 x10\<close> is rejected by the validator, with
  an error for the token \<^verbatim>\<open>g1\<close> of line 1, and parsed into a feed move with X = 10.
\<close>

theorem parse_upper_validate_strict:
  "parseCommand (toUpperCase line) n
     = map_option (\<lambda>c. c\<lparr> raw := toUpperCase line \<rparr>) (parseCommand line n)
   \<and> (codeToken part \<or> paramToken part \<longrightarrow>
        (\<exists>c rest. part = c # rest \<and> c \<in> set ''GMTXYZEFHSIJKR''
           \<and> list_all (\<lambda>d. isDigit d \<or> d \<in> set ''+-.'') rest))
   \<and> validateGCode ''g1 x10'' = \<lparr> isValid = False, errors = [InvalidToken 1 ''g1''] \<rparr>
   \<and> parseCommand ''g1 x10'' 1
       = Some \<lparr> ctype = G1, lineNumber = 1, nNumber = None,
                 params = [CHR ''G'' \<mapsto> Num 1, CHR ''X'' \<mapsto> Num 10], raw = ''g1 x10'' \<rparr>"
proof -
  have v: "validateGCode ''g1 x10'' = \<lparr> isValid = False, errors = [InvalidToken 1 ''g1''] \<rparr>"
    by (simp add: validate_defs)
  have p: "parseCommand ''g1 x10'' 1
       = Some \<lparr> ctype = G1, lineNumber = 1, nNumber = None,
                 params = [CHR ''G'' \<mapsto> Num 1, CHR ''X'' \<mapsto> Num 10], raw = ''g1 x10'' \<rparr>"
    by (simp add: parse_defs)
  show ?thesis
    using parseCommand_toUpperCase codeToken_shape paramToken_shape v p by blast
qed

text \<open>Claim C10 at the line \<^verbatim>\<open>g1 x10\<close> and the accepted token \<^verbatim>\<open>G1\<close>.\<close>

theorem parse_upper_validate_strict_witness:
  "codeToken ''G1''
   \<and> parseCommand (toUpperCase ''g1 x10'') 1
     = Some \<lparr> ctype = G1, lineNumber = 1, nNumber = None,
               params = [CHR ''G'' \<mapsto> Num 1, CHR ''X'' \<mapsto> Num 10], raw = ''G1 X10'' \<rparr>
   \<and> map_option ctype (parseCommand ''g1 x10'' 1) = Some G1
   \<and> isValid (validateGCode ''g1 x10'') = False"
  using parse_upper_validate_strict [of "''g1 x10''" 1 "''G1''"]
  by (simp add: codeToken_def isDigit_def toUpperCase_def upperChar_def)

text \<open>
  Claim C4 says that a line with an explicit G0 keeps the type rapid move when a coordinate
  letter follows. The code at \<^verbatim>\<open>G0 X10\<close>: the G0 token stores 0 under G, the test
  \<^verbatim>\<open>!params['G']\<close> of the X token takes that 0 for a missing G code, and the instruction
  comes out as a feed move, with 1 stored under G.
\<close>

theorem rapid_move_default_failing_input:
  "parseCommand ''G0 X10'' 1
     = Some \<lparr> ctype = G1, lineNumber = 1, nNumber = None,
               params = [CHR ''G'' \<mapsto> Num 0, CHR ''X'' \<mapsto> Num 10, CHR ''G'' \<mapsto> Num 1],
               raw = ''G0 X10'' \<rparr>"
  by (simp add: parse_defs)

subsection \<open>Values stored by parseCommand\<close>

lemma paramsNotNaN_parsePart:
  assumes "paramsNotNaN (psParams ps)"
  shows "paramsNotNaN (psParams (parsePart ps p))"
proof (cases "toUpperCase p")
  case Nil
  with assms show ?thesis by (simp add: parsePart_def)
next
  case (Cons param valueStr)
  define v where "v = (if CHR ''.'' \<in> set valueStr then parseFloat valueStr else parseInt valueStr)"
  show ?thesis
    using assms
    by (auto simp: parsePart_def Cons Let_def v_def [symmetric] isNaN_def paramsNotNaN_def)
qed

lemma paramsNotNaN_foldl:
  "paramsNotNaN (psParams ps) \<Longrightarrow> paramsNotNaN (psParams (foldl parsePart ps parts))"
  by (induction parts arbitrary: ps) (simp_all add: paramsNotNaN_parsePart)

lemma parseCommand_notNaN:
  assumes "parseCommand line n = Some c" and "k \<notin> set ''GMT''"
  shows "params c k \<noteq> Some NaN"
proof -
  have "paramsNotNaN (psParams (foldl parsePart
      \<lparr> psParams = Map.empty, psNNumber = None, psCommandType = OTHER \<rparr> parts))" for parts
    by (rule paramsNotNaN_foldl) (simp add: paramsNotNaN_def)
  with assms have "paramsNotNaN (params c)"
    by (auto simp: parseCommand_def Let_def split: if_splits)
  with assms(2) show ?thesis
    by (simp add: paramsNotNaN_def)
qed

subsection \<open>The running bounds of parseGCode\<close>

lemma axisValues_snoc:
  "axisValues k (cs @ [c]) = axisValues k cs @ (case params c k of Some v \<Rightarrow> [v] | None \<Rightarrow> [])"
  by (auto simp: axisValues_def map_filter_def split: option.splits)

lemma finiteValues_snoc:
  "finiteValues (vs @ [v]) = finiteValues vs @ (case v of Num r \<Rightarrow> [r] | _ \<Rightarrow> [])"
  by (auto simp: finiteValues_def map_filter_def split: number.splits)

lemma runMax_snoc:
  assumes "a \<noteq> NaN"
  shows "mathMax (runMax vs) a = runMax (vs @ [a])"
  using assms
  by (cases a) (auto simp: runMax_def finiteValues_snoc max.commute)

lemma runMin_snoc:
  assumes "a \<noteq> NaN"
  shows "mathMin (runMin vs) a = runMin (vs @ [a])"
  using assms
  by (cases a) (auto simp: runMin_def finiteValues_snoc min.commute)

lemma runMax_step:
  assumes "params c k \<noteq> Some NaN"
  shows "(case params c k of None \<Rightarrow> runMax (axisValues k cs)
          | Some a \<Rightarrow> mathMax (runMax (axisValues k cs)) a) = runMax (axisValues k (cs @ [c]))"
  using assms by (auto simp: axisValues_snoc runMax_snoc split: option.splits)

lemma runMin_step:
  assumes "params c k \<noteq> Some NaN"
  shows "(case params c k of None \<Rightarrow> runMin (axisValues k cs)
          | Some a \<Rightarrow> mathMin (runMin (axisValues k cs)) a) = runMin (axisValues k (cs @ [c]))"
  using assms by (auto simp: axisValues_snoc runMin_snoc split: option.splits)

lemma updateRange_fields:
  "maxX (updateRange v maxX minX maxX_update minX_update st)
     = (case v of None \<Rightarrow> maxX st | Some a \<Rightarrow> mathMax (maxX st) a)"
  "minX (updateRange v maxX minX maxX_update minX_update st)
     = (case v of None \<Rightarrow> minX st | Some a \<Rightarrow> mathMin (minX st) a)"
  "maxY (updateRange v maxX minX maxX_update minX_update st) = maxY st"
  "minY (updateRange v maxX minX maxX_update minX_update st) = minY st"
  "maxZ (updateRange v maxX minX maxX_update minX_update st) = maxZ st"
  "minZ (updateRange v maxX minX maxX_update minX_update st) = minZ st"
  "maxY (updateRange v maxY minY maxY_update minY_update st)
     = (case v of None \<Rightarrow> maxY st | Some a \<Rightarrow> mathMax (maxY st) a)"
  "minY (updateRange v maxY minY maxY_update minY_update st)
     = (case v of None \<Rightarrow> minY st | Some a \<Rightarrow> mathMin (minY st) a)"
  "maxX (updateRange v maxY minY maxY_update minY_update st) = maxX st"
  "minX (updateRange v maxY minY maxY_update minY_update st) = minX st"
  "maxZ (updateRange v maxY minY maxY_update minY_update st) = maxZ st"
  "minZ (updateRange v maxY minY maxY_update minY_update st) = minZ st"
  "maxZ (updateRange v maxZ minZ maxZ_update minZ_update st)
     = (case v of None \<Rightarrow> maxZ st | Some a \<Rightarrow> mathMax (maxZ st) a)"
  "minZ (updateRange v maxZ minZ maxZ_update minZ_update st)
     = (case v of None \<Rightarrow> minZ st | Some a \<Rightarrow> mathMin (minZ st) a)"
  "maxX (updateRange v maxZ minZ maxZ_update minZ_update st) = maxX st"
  "minX (updateRange v maxZ minZ maxZ_update minZ_update st) = minX st"
  "maxY (updateRange v maxZ minZ maxZ_update minZ_update st) = maxY st"
  "minY (updateRange v maxZ minZ maxZ_update minZ_update st) = minY st"
  by (simp_all add: updateRange_def split: option.splits)

lemma boundsInv_parseLine:
  assumes "boundsInv acc"
  shows "boundsInv (parseLine acc il)"
proof (cases "parseCommand (snd il) (fst il + 1)")
  case None
  with assms show ?thesis by (simp add: parseLine_def)
next
  case (Some c)
  have fin: "params c CHR ''X'' \<noteq> Some NaN" "params c CHR ''Y'' \<noteq> Some NaN"
    "params c CHR ''Z'' \<noteq> Some NaN"
    by (rule parseCommand_notNaN [OF Some], simp)+
  have acc': "parseLine acc il = (fst acc @ [c],
           updateRange (params c CHR ''Z'') maxZ minZ maxZ_update minZ_update
             (updateRange (params c CHR ''Y'') maxY minY maxY_update minY_update
               (updateRange (params c CHR ''X'') maxX minX maxX_update minX_update
                 ((snd acc)\<lparr> validCommands := validCommands (snd acc) + 1 \<rparr>))))"
    using Some by (simp add: parseLine_def)
  show ?thesis
    unfolding boundsInv_def acc' fst_conv snd_conv updateRange_fields
    using assms fin
    by (simp add: boundsInv_def runMax_step [symmetric] runMin_step [symmetric]
        split: option.splits)
qed

lemma boundsInv_foldl: "boundsInv acc \<Longrightarrow> boundsInv (foldl parseLine acc ils)"
  by (induction ils arbitrary: acc) (simp_all add: boundsInv_parseLine)

lemma final_max:
  "(if runMax (axisValues k cs) = NegInfinity then Num 0 else runMax (axisValues k cs))
     = axisMax k cs"
  by (simp add: runMax_def axisMax_def)

lemma final_min:
  "(if runMin (axisValues k cs) = Infinity then Num 0 else runMin (axisValues k cs))
     = axisMin k cs"
  by (simp add: runMin_def axisMin_def)

lemma axisValues_absent:
  "list_all (\<lambda>c. params c k = None) cs \<Longrightarrow> axisValues k cs = []"
  by (induction cs) (simp_all add: axisValues_def map_filter_def)

lemma axis_absent_zero:
  "axisValues k cs = [] \<Longrightarrow> axisMax k cs = Num 0 \<and> axisMin k cs = Num 0"
  by (simp add: axisMax_def axisMin_def finiteValues_def map_filter_def)

text \<open>
  Claim C9, as amended. For every document, no X, Y or Z value of a parsed instruction is
  NaN (a literal too large for a double is stored as an infinity), and the stats returned by
  \<open>parseGCode\<close> hold for each axis, over that coordinate's values in the parsed instructions
  in which it appears: as maximum +Infinity when one of the values is +Infinity and otherwise
  the greatest finite value, as minimum -Infinity when one of the values is -Infinity and
  otherwise the least finite value, and 0 where there is no such value. So a bound is 0 when
  the axis never appears, and also a maximum over values that are all -Infinity and a minimum
  over values that are all +Infinity; in particular all six bounds are 0 for a document
  without an instruction that bears a coordinate.
\<close>

theorem parseGCode_bounds:
  "list_all (\<lambda>c. params c CHR ''X'' \<noteq> Some NaN \<and> params c CHR ''Y'' \<noteq> Some NaN
                 \<and> params c CHR ''Z'' \<noteq> Some NaN) (commands (parseGCode content))
   \<and> maxX (stats (parseGCode content)) = axisMax CHR ''X'' (commands (parseGCode content))
   \<and> minX (stats (parseGCode content)) = axisMin CHR ''X'' (commands (parseGCode content))
   \<and> maxY (stats (parseGCode content)) = axisMax CHR ''Y'' (commands (parseGCode content))
   \<and> minY (stats (parseGCode content)) = axisMin CHR ''Y'' (commands (parseGCode content))
   \<and> maxZ (stats (parseGCode content)) = axisMax CHR ''Z'' (commands (parseGCode content))
   \<and> minZ (stats (parseGCode content)) = axisMin CHR ''Z'' (commands (parseGCode content))
   \<and> (list_all (\<lambda>c. params c CHR ''X'' = None \<and> params c CHR ''Y'' = None
                     \<and> params c CHR ''Z'' = None) (commands (parseGCode content))
      \<longrightarrow> maxX (stats (parseGCode content)) = Num 0 \<and> minX (stats (parseGCode content)) = Num 0
        \<and> maxY (stats (parseGCode content)) = Num 0 \<and> minY (stats (parseGCode content)) = Num 0
        \<and> maxZ (stats (parseGCode content)) = Num 0 \<and> minZ (stats (parseGCode content)) = Num 0)"
proof -
  define ls where "ls = split CHR 0x0A content"
  define acc where "acc = foldl parseLine
      ([], \<lparr> totalLines = length ls, validCommands = 0,
             maxX = NegInfinity, maxY = NegInfinity, maxZ = NegInfinity,
             minX = Infinity, minY = Infinity, minZ = Infinity \<rparr>) (enumerate 0 ls)"
  have "boundsInv ([], \<lparr> totalLines = length ls, validCommands = 0,
             maxX = NegInfinity, maxY = NegInfinity, maxZ = NegInfinity,
             minX = Infinity, minY = Infinity, minZ = Infinity \<rparr>)"
    by (simp add: boundsInv_def axisValues_def finiteValues_def map_filter_def runMax_def
        runMin_def)
  then have inv: "boundsInv acc" unfolding acc_def by (rule boundsInv_foldl)
  have cs: "commands (parseGCode content) = fst acc"
    by (simp add: parseGCode_def Let_def acc_def ls_def)
  have raw: "stats (parseGCode content) =
      \<lparr> totalLines = length ls, validCommands = validCommands (snd acc),
        maxX = (if maxX (snd acc) = NegInfinity then Num 0 else maxX (snd acc)),
        maxY = (if maxY (snd acc) = NegInfinity then Num 0 else maxY (snd acc)),
        maxZ = (if maxZ (snd acc) = NegInfinity then Num 0 else maxZ (snd acc)),
        minX = (if minX (snd acc) = Infinity then Num 0 else minX (snd acc)),
        minY = (if minY (snd acc) = Infinity then Num 0 else minY (snd acc)),
        minZ = (if minZ (snd acc) = Infinity then Num 0 else minZ (snd acc)) \<rparr>"
    by (simp add: parseGCode_def Let_def acc_def ls_def)
  have eqs: "maxX (snd acc) = runMax (axisValues CHR ''X'' (fst acc))"
    "minX (snd acc) = runMin (axisValues CHR ''X'' (fst acc))"
    "maxY (snd acc) = runMax (axisValues CHR ''Y'' (fst acc))"
    "minY (snd acc) = runMin (axisValues CHR ''Y'' (fst acc))"
    "maxZ (snd acc) = runMax (axisValues CHR ''Z'' (fst acc))"
    "minZ (snd acc) = runMin (axisValues CHR ''Z'' (fst acc))"
    using inv by (simp_all add: boundsInv_def)
  have st: "maxX (stats (parseGCode content)) = axisMax CHR ''X'' (fst acc)"
    "minX (stats (parseGCode content)) = axisMin CHR ''X'' (fst acc)"
    "maxY (stats (parseGCode content)) = axisMax CHR ''Y'' (fst acc)"
    "minY (stats (parseGCode content)) = axisMin CHR ''Y'' (fst acc)"
    "maxZ (stats (parseGCode content)) = axisMax CHR ''Z'' (fst acc)"
    "minZ (stats (parseGCode content)) = axisMin CHR ''Z'' (fst acc)"
    unfolding raw Stats.select_convs eqs final_max final_min
    by (rule refl)+
  have fin: "list_all (\<lambda>c. params c CHR ''X'' \<noteq> Some NaN \<and> params c CHR ''Y'' \<noteq> Some NaN
                 \<and> params c CHR ''Z'' \<noteq> Some NaN) (fst acc)"
    using inv by (simp add: boundsInv_def)
  have none: "axisValues CHR ''X'' (fst acc) = [] \<and> axisValues CHR ''Y'' (fst acc) = []
      \<and> axisValues CHR ''Z'' (fst acc) = []"
    if "list_all (\<lambda>c. params c CHR ''X'' = None \<and> params c CHR ''Y'' = None
                     \<and> params c CHR ''Z'' = None) (fst acc)"
    using that by (auto intro!: axisValues_absent simp: list_all_iff)
  show ?thesis
    unfolding cs st using fin none by (auto dest: axis_absent_zero)
qed

subsection \<open>The statistics of concrete documents\<close>

lemma split_lines_3:
  "split CHR 0x0A (''G1 X10 Y-5'' @ [CHR 0x0A] @ ''X-2.5 ; back'' @ [CHR 0x0A] @ ''M3'')
     = [''G1 X10 Y-5'', ''X-2.5 ; back'', ''M3'']"
  by simp

lemma example_line_1:
  "parseCommand ''G1 X10 Y-5'' (Suc 0)
     = Some \<lparr> ctype = G1, lineNumber = 1, nNumber = None,
               params = [CHR ''G'' \<mapsto> Num 1, CHR ''X'' \<mapsto> Num 10, CHR ''Y'' \<mapsto> Num (-5)],
               raw = ''G1 X10 Y-5'' \<rparr>"
  by (simp add: parse_defs)

lemma example_line_2:
  "parseCommand ''X-2.5 ; back'' (Suc (Suc 0))
     = Some \<lparr> ctype = G1, lineNumber = 2, nNumber = None,
               params = [CHR ''X'' \<mapsto> Num (-2.5), CHR ''G'' \<mapsto> Num 1],
               raw = ''X-2.5 ; back'' \<rparr>"
  by (simp add: parse_defs)

lemma example_line_3:
  "parseCommand ''M3'' (Suc (Suc (Suc 0)))
     = Some \<lparr> ctype = M03, lineNumber = 3, nNumber = None,
               params = [CHR ''M'' \<mapsto> Num 3], raw = ''M3'' \<rparr>"
  by (simp add: parse_defs)

lemma example_stats:
  "stats (parseGCode (''G1 X10 Y-5'' @ [CHR 0x0A] @ ''X-2.5 ; back'' @ [CHR 0x0A] @ ''M3''))
     = \<lparr> totalLines = 3, validCommands = 3,
         maxX = Num 10, maxY = Num (-5), maxZ = Num 0,
         minX = Num (-2.5), minY = Num (-5), minZ = Num 0 \<rparr>"
  unfolding parseGCode_def split_lines_3 Let_def
  by (simp add: enumerate_eq_zip upt_conv_Cons parseLine_def updateRange_def
      example_line_1 example_line_2 example_line_3)


lemma split_lines_2:
  "split CHR 0x0A (''G90'' @ [CHR 0x0A] @ ''M3 S1000'') = [''G90'', ''M3 S1000'']"
  by simp

lemma example_line_4:
  "parseCommand ''G90'' (Suc 0)
     = Some \<lparr> ctype = G90, lineNumber = 1, nNumber = None,
               params = [CHR ''G'' \<mapsto> Num 90], raw = ''G90'' \<rparr>"
  by (simp add: parse_defs)

lemma example_line_5:
  "parseCommand ''M3 S1000'' (Suc (Suc 0))
     = Some \<lparr> ctype = M03, lineNumber = 2, nNumber = None,
               params = [CHR ''M'' \<mapsto> Num 3, CHR ''S'' \<mapsto> Num 1000], raw = ''M3 S1000'' \<rparr>"
  by (simp add: parse_defs)

lemma example_stats_none:
  "stats (parseGCode (''G90'' @ [CHR 0x0A] @ ''M3 S1000''))
     = \<lparr> totalLines = 2, validCommands = 2,
         maxX = Num 0, maxY = Num 0, maxZ = Num 0,
         minX = Num 0, minY = Num 0, minZ = Num 0 \<rparr>"
  unfolding parseGCode_def split_lines_2 Let_def
  by (simp add: enumerate_eq_zip upt_conv_Cons parseLine_def updateRange_def
      example_line_4 example_line_5)

lemma example_commands_none:
  "commands (parseGCode (''G90'' @ [CHR 0x0A] @ ''M3 S1000''))
     = [\<lparr> ctype = G90, lineNumber = 1, nNumber = None,
          params = [CHR ''G'' \<mapsto> Num 90], raw = ''G90'' \<rparr>,
        \<lparr> ctype = M03, lineNumber = 2, nNumber = None,
          params = [CHR ''M'' \<mapsto> Num 3, CHR ''S'' \<mapsto> Num 1000], raw = ''M3 S1000'' \<rparr>]"
  unfolding parseGCode_def split_lines_2 Let_def
  by (simp add: enumerate_eq_zip upt_conv_Cons parseLine_def updateRange_def
      example_line_4 example_line_5)

lemma overflowDocument_literal:
  "overflowDocument = ''G1 X9999999999999999999999999999999999999999999999999999999999999999999999999999999999999999999999999999999999999999999999999999999999999999999999999999999999999999999999999999999999999999999999999999999999999999999999999999999999999999999999999999999999999999999999999999999999999999999999999999999999999999999999''"
  by (simp add: overflowDocument_def numeral_eq_Suc)

lemma overflow_line:
  "parseCommand overflowDocument (Suc 0)
     = Some \<lparr> ctype = G1, lineNumber = 1, nNumber = None,
               params = [CHR ''G'' \<mapsto> Num 1, CHR ''X'' \<mapsto> Infinity], raw = overflowDocument \<rparr>"
  unfolding overflowDocument_literal by (simp add: parse_defs)


lemma split_no_separator: "sep \<notin> set s \<Longrightarrow> split sep s = [s]"
  by (induction s) auto

lemma overflow_lines: "split CHR 0x0A overflowDocument = [overflowDocument]"
  by (rule split_no_separator) (simp add: overflowDocument_def)

lemma overflow_commands:
  "commands (parseGCode overflowDocument)
     = [\<lparr> ctype = G1, lineNumber = 1, nNumber = None,
          params = [CHR ''G'' \<mapsto> Num 1, CHR ''X'' \<mapsto> Infinity], raw = overflowDocument \<rparr>]"
  unfolding parseGCode_def overflow_lines Let_def
  by (simp add: enumerate_eq_zip upt_conv_Cons parseLine_def updateRange_def overflow_line)

lemma overflow_stats:
  "stats (parseGCode overflowDocument)
     = \<lparr> totalLines = 1, validCommands = 1,
         maxX = Infinity, maxY = Num 0, maxZ = Num 0,
         minX = Num 0, minY = Num 0, minZ = Num 0 \<rparr>"
  unfolding parseGCode_def overflow_lines Let_def
  by (simp add: enumerate_eq_zip upt_conv_Cons parseLine_def updateRange_def overflow_line)

lemma overflow_valid: "validateGCode overflowDocument = \<lparr> isValid = True, errors = [] \<rparr>"
  unfolding validateGCode_def overflow_lines Let_def
  unfolding overflowDocument_literal
  by (simp add: validate_defs)

text \<open>
  Claim C9 at a three-line document with X and Y values, at a two-line document without
  coordinates, and at the document whose X value overflows.
\<close>

theorem parseGCode_bounds_witness:
  "stats (parseGCode (''G1 X10 Y-5'' @ [CHR 0x0A] @ ''X-2.5 ; back'' @ [CHR 0x0A] @ ''M3''))
     = \<lparr> totalLines = 3, validCommands = 3,
         maxX = Num 10, maxY = Num (-5), maxZ = Num 0,
         minX = Num (-2.5), minY = Num (-5), minZ = Num 0 \<rparr>
   \<and> list_all (\<lambda>c. params c CHR ''X'' = None \<and> params c CHR ''Y'' = None
                     \<and> params c CHR ''Z'' = None)
        (commands (parseGCode (''G90'' @ [CHR 0x0A] @ ''M3 S1000'')))
   \<and> stats (parseGCode (''G90'' @ [CHR 0x0A] @ ''M3 S1000''))
     = \<lparr> totalLines = 2, validCommands = 2,
         maxX = Num 0, maxY = Num 0, maxZ = Num 0,
         minX = Num 0, minY = Num 0, minZ = Num 0 \<rparr>
   \<and> axisMax CHR ''X'' (commands (parseGCode overflowDocument)) = Infinity
   \<and> axisMin CHR ''X'' (commands (parseGCode overflowDocument)) = Num 0"
proof -
  have none: "list_all (\<lambda>c. params c CHR ''X'' = None \<and> params c CHR ''Y'' = None
                     \<and> params c CHR ''Z'' = None)
        (commands (parseGCode (''G90'' @ [CHR 0x0A] @ ''M3 S1000'')))"
    unfolding example_commands_none by simp
  have "maxX (stats (parseGCode overflowDocument)) = Infinity"
    "minX (stats (parseGCode overflowDocument)) = Num 0"
    by (simp_all add: overflow_stats)
  then have over: "axisMax CHR ''X'' (commands (parseGCode overflowDocument)) = Infinity"
    "axisMin CHR ''X'' (commands (parseGCode overflowDocument)) = Num 0"
    using parseGCode_bounds [of overflowDocument] by simp_all
  show ?thesis
    using parseGCode_bounds [of "''G1 X10 Y-5'' @ [CHR 0x0A] @ ''X-2.5 ; back'' @ [CHR 0x0A] @ ''M3''"]
      parseGCode_bounds [of "''G90'' @ [CHR 0x0A] @ ''M3 S1000''"] none over
    by (simp only: example_stats example_stats_none simp_thms)
qed

text \<open>
  With the bounds read as the plain minimum and maximum of the values, the claim fails at
  the document \<^verbatim>\<open>G1 X99...9\<close> (310 nines), which the validator accepts: its one instruction
  has X = +Infinity, the maximum is reported as +Infinity, and the minimum, which is
  +Infinity as well, is reported as 0, because +Infinity is also the value the running
  minimum starts from.
\<close>

theorem parseGCode_overflow_counterexample:
  "isValid (validateGCode overflowDocument)
   \<and> commands (parseGCode overflowDocument)
     = [\<lparr> ctype = G1, lineNumber = 1, nNumber = None,
          params = [CHR ''G'' \<mapsto> Num 1, CHR ''X'' \<mapsto> Infinity], raw = overflowDocument \<rparr>]
   \<and> maxX (stats (parseGCode overflowDocument)) = Infinity
   \<and> minX (stats (parseGCode overflowDocument)) = Num 0"
  by (simp add: overflow_valid overflow_commands overflow_stats)

end
